theory Spec2Isabelle
  imports Complex_Main
begin

section \<open>Vectors and matrices (glm::dvec3, glm::dmat3)\<close>

text \<open>
  The solver computes with \<^verbatim>\<open>double\<close>. The model uses the real numbers: the
  statements below are about the exact arithmetic that the floating-point code
  approximates, with one exception, the tests \<^verbatim>\<open>glm::length(v) > 0\<close> of steps 1 and 4,
  where the underflow of the computed length decides the branch (\<open>glm_length\<close> below). \<^verbatim>\<open>glm::dmat3\<close> is column-major: \<^verbatim>\<open>m[i]\<close> is column \<open>i\<close> and
  \<^verbatim>\<open>m[i][j]\<close> is the entry in column \<open>i\<close>, row \<open>j\<close>.
\<close>

datatype vec3 = Vec3 (vx: real) (vy: real) (vz: real)

datatype mat3 = Mat3 (col0: vec3) (col1: vec3) (col2: vec3)

instantiation vec3 :: ab_group_add
begin

definition zero_vec3 :: vec3 where
  "zero_vec3 = Vec3 0 0 0"

definition plus_vec3 :: "vec3 \<Rightarrow> vec3 \<Rightarrow> vec3" where
  "plus_vec3 a b = Vec3 (vx a + vx b) (vy a + vy b) (vz a + vz b)"

definition uminus_vec3 :: "vec3 \<Rightarrow> vec3" where
  "uminus_vec3 a = Vec3 (- vx a) (- vy a) (- vz a)"

definition minus_vec3 :: "vec3 \<Rightarrow> vec3 \<Rightarrow> vec3" where
  "minus_vec3 a b = Vec3 (vx a - vx b) (vy a - vy b) (vz a - vz b)"

instance
  by standard
    (simp_all add: zero_vec3_def plus_vec3_def uminus_vec3_def minus_vec3_def)

end

text \<open>\<^verbatim>\<open>v * s\<close> and \<^verbatim>\<open>s * v\<close> of glm, a vector scaled by a number.\<close>

definition scaleV :: "real \<Rightarrow> vec3 \<Rightarrow> vec3" where
  "scaleV s v = Vec3 (s * vx v) (s * vy v) (s * vz v)"

text \<open>\<^verbatim>\<open>v / s\<close> and \<^verbatim>\<open>v /= s\<close> of glm.\<close>

definition divV :: "vec3 \<Rightarrow> real \<Rightarrow> vec3" where
  "divV v s = Vec3 (vx v / s) (vy v / s) (vz v / s)"

definition dot :: "vec3 \<Rightarrow> vec3 \<Rightarrow> real" where
  "dot a b = vx a * vx b + vy a * vy b + vz a * vz b"

text \<open>\<^verbatim>\<open>glm::length\<close>.\<close>

definition length3 :: "vec3 \<Rightarrow> real" where
  "length3 v = sqrt (dot v v)"

text \<open>
  Where the code tests \<^verbatim>\<open>glm::length(v) > 0\<close>, rounding decides the branch. In
  \<^verbatim>\<open>double\<close> arithmetic a square of at most \<open>2\<^sup>-\<^sup>1\<^sup>0\<^sup>7\<^sup>5\<close>, half the least positive
  number, is rounded to \<open>0\<close>; the computed length is \<open>0\<close> for a vector whose components
  are all below about \<open>1e-162\<close> in size, and positive for every other vector. \<open>flsq\<close> is
  the square with this underflow and \<open>glm_length\<close> the length computed from such
  squares. No other rounding is modelled.
\<close>

definition flsq :: "real \<Rightarrow> real" where
  "flsq x = (if x * x \<le> 1 / 2 ^ 1075 then 0 else x * x)"

definition glm_length :: "vec3 \<Rightarrow> real" where
  "glm_length v = sqrt (flsq (vx v) + flsq (vy v) + flsq (vz v))"

text \<open>\<^verbatim>\<open>glm::normalize(v) = v * inversesqrt(dot(v, v))\<close>.\<close>

definition normalize :: "vec3 \<Rightarrow> vec3" where
  "normalize v = scaleV (1 / sqrt (dot v v)) v"

text \<open>\<^verbatim>\<open>m * v\<close>: the linear combination of the columns.\<close>

definition mat_vec :: "mat3 \<Rightarrow> vec3 \<Rightarrow> vec3" where
  "mat_vec m v = scaleV (vx v) (col0 m) + scaleV (vy v) (col1 m) + scaleV (vz v) (col2 m)"

text \<open>\<^verbatim>\<open>glm::dmat3(a, b, c, d, e, f, g, h, i)\<close>: the arguments fill column after column.\<close>

definition dmat3 ::
  "real \<Rightarrow> real \<Rightarrow> real \<Rightarrow> real \<Rightarrow> real \<Rightarrow> real \<Rightarrow> real \<Rightarrow> real \<Rightarrow> real \<Rightarrow> mat3" where
  "dmat3 a b c d e f g h i = Mat3 (Vec3 a b c) (Vec3 d e f) (Vec3 g h i)"

text \<open>\<^verbatim>\<open>glm::dmat3(s)\<close>: \<open>s\<close> on the diagonal.\<close>

definition dmat3_scalar :: "real \<Rightarrow> mat3" where
  "dmat3_scalar s = dmat3 s 0 0 0 s 0 0 0 s"

instantiation mat3 :: ring_1
begin

definition zero_mat3 :: mat3 where
  "zero_mat3 = Mat3 0 0 0"

definition one_mat3 :: mat3 where
  "one_mat3 = dmat3_scalar 1"

definition plus_mat3 :: "mat3 \<Rightarrow> mat3 \<Rightarrow> mat3" where
  "plus_mat3 a b = Mat3 (col0 a + col0 b) (col1 a + col1 b) (col2 a + col2 b)"

definition uminus_mat3 :: "mat3 \<Rightarrow> mat3" where
  "uminus_mat3 a = Mat3 (- col0 a) (- col1 a) (- col2 a)"

definition minus_mat3 :: "mat3 \<Rightarrow> mat3 \<Rightarrow> mat3" where
  "minus_mat3 a b = Mat3 (col0 a - col0 b) (col1 a - col1 b) (col2 a - col2 b)"

definition times_mat3 :: "mat3 \<Rightarrow> mat3 \<Rightarrow> mat3" where
  "times_mat3 a b = Mat3 (mat_vec a (col0 b)) (mat_vec a (col1 b)) (mat_vec a (col2 b))"

instance
proof
  fix a b c :: mat3
  show "a * b * c = a * (b * c)"
    by (simp add: times_mat3_def mat_vec_def scaleV_def plus_vec3_def algebra_simps)
  show "(a + b) * c = a * c + b * c"
    by (simp add: times_mat3_def plus_mat3_def mat_vec_def scaleV_def plus_vec3_def
        algebra_simps)
  show "a * (b + c) = a * b + a * c"
    by (simp add: times_mat3_def plus_mat3_def mat_vec_def scaleV_def plus_vec3_def
        algebra_simps)
  show "1 * a = a"
    by (simp add: times_mat3_def one_mat3_def dmat3_scalar_def dmat3_def mat_vec_def
        scaleV_def plus_vec3_def)
  show "a * 1 = a"
    by (simp add: times_mat3_def one_mat3_def dmat3_scalar_def dmat3_def mat_vec_def
        scaleV_def plus_vec3_def)
  show "a + b + c = a + (b + c)"
    by (simp add: plus_mat3_def add.assoc)
  show "a + b = b + a"
    by (simp add: plus_mat3_def add.commute)
  show "0 + a = a"
    by (simp add: plus_mat3_def zero_mat3_def)
  show "- a + a = 0"
    by (simp add: plus_mat3_def uminus_mat3_def zero_mat3_def)
  show "a - b = a + - b"
    by (simp add: plus_mat3_def uminus_mat3_def minus_mat3_def)
  show "(0::mat3) \<noteq> 1"
    by (simp add: zero_mat3_def one_mat3_def dmat3_scalar_def dmat3_def zero_vec3_def)
qed

end

text \<open>\<^verbatim>\<open>s * m\<close> of glm, a matrix scaled by a number.\<close>

definition scaleM :: "real \<Rightarrow> mat3 \<Rightarrow> mat3" where
  "scaleM s m = Mat3 (scaleV s (col0 m)) (scaleV s (col1 m)) (scaleV s (col2 m))"

text \<open>\<^verbatim>\<open>glm::transpose\<close>.\<close>

definition transpose3 :: "mat3 \<Rightarrow> mat3" where
  "transpose3 m =
     Mat3 (Vec3 (vx (col0 m)) (vx (col1 m)) (vx (col2 m)))
          (Vec3 (vy (col0 m)) (vy (col1 m)) (vy (col2 m)))
          (Vec3 (vz (col0 m)) (vz (col1 m)) (vz (col2 m)))"

text \<open>\<^verbatim>\<open>glm::determinant\<close>, the expansion along the first column as glm writes it.\<close>

definition determinant :: "mat3 \<Rightarrow> real" where
  "determinant m =
     vx (col0 m) * (vy (col1 m) * vz (col2 m) - vy (col2 m) * vz (col1 m))
     - vx (col1 m) * (vy (col0 m) * vz (col2 m) - vy (col2 m) * vz (col0 m))
     + vx (col2 m) * (vy (col0 m) * vz (col1 m) - vy (col1 m) * vz (col0 m))"

text \<open>
  \<^verbatim>\<open>glm::outerProduct(c, r)\<close>: the matrix \<open>c r\<^sup>T\<close>, whose column \<open>j\<close> is \<open>c\<close> scaled by
  the \<open>j\<close>-th component of \<open>r\<close>.
\<close>

definition outerProduct :: "vec3 \<Rightarrow> vec3 \<Rightarrow> mat3" where
  "outerProduct c r = Mat3 (scaleV (vx r) c) (scaleV (vy r) c) (scaleV (vz r) c)"

text \<open>\<^verbatim>\<open>glm::clamp(x, lo, hi) = min(max(x, lo), hi)\<close>, componentwise on a vector.\<close>

definition clamp :: "real \<Rightarrow> real \<Rightarrow> real \<Rightarrow> real" where
  "clamp x lo hi = min (max x lo) hi"

definition clampV :: "vec3 \<Rightarrow> real \<Rightarrow> real \<Rightarrow> vec3" where
  "clampV e lo hi = Vec3 (clamp (vx e) lo hi) (clamp (vy e) lo hi) (clamp (vz e) lo hi)"

section \<open>Nodes\<close>

text \<open>
  Modelled from the spec: the class \<^verbatim>\<open>Node\<close> (Node.h) is not among the sources. Its
  fields are the ones SnowSolver.cpp reads and writes; the velocity is double-buffered
  and \<^verbatim>\<open>velocity(n)\<close> selects a buffer by the parity of \<open>n\<close>.
\<close>

record node =
  position :: vec3
  velocity_even :: vec3
  velocity_odd :: vec3
  velocity_star :: vec3
  mass :: real

text \<open>
  Modelled from the spec: the accessor \<^verbatim>\<open>velocity(n)\<close> of Node.h, the buffer that the
  parity of \<open>n\<close> selects.
\<close>

definition velocity :: "'a node_scheme \<Rightarrow> nat \<Rightarrow> vec3" where
  "velocity nd n = (if even n then velocity_even nd else velocity_odd nd)"

text \<open>
  Modelled from the spec: an assignment to \<^verbatim>\<open>velocity(n)\<close>, which writes the buffer that
  the parity of \<open>n\<close> selects.
\<close>

definition set_velocity :: "nat \<Rightarrow> vec3 \<Rightarrow> 'a node_scheme \<Rightarrow> 'a node_scheme" where
  "set_velocity n v nd = (if even n then nd\<lparr>velocity_even := v\<rparr> else nd\<lparr>velocity_odd := v\<rparr>)"

text \<open>GridNode.h: a grid node is a node with a density, an integer location and a force.\<close>

record gridnode = node +
  density0 :: real
  location :: "nat \<times> nat \<times> nat"
  force :: vec3

text \<open>
  Modelled from the spec: the class \<^verbatim>\<open>ParticleNode\<close> is not among the sources; the
  fields are the ones SnowSolver.cpp uses.
\<close>

record particlenode = node +
  volume0 :: real
  deformElastic :: mat3
  deformPlastic :: mat3

section \<open>The collision handler\<close>

text \<open>
  \<^verbatim>\<open>SnowSolver::handleNodeCollisionVelocityUpdate(Node &node)\<close>, for grid nodes and
  particles alike. The floor, its normal and its friction are hard-coded. The length of
  the tangential velocity is the exact one here.
\<close>

definition handleNodeCollisionVelocityUpdate :: "'a node_scheme \<Rightarrow> 'a node_scheme" where
  "handleNodeCollisionVelocityUpdate nd =
     (if vz (position nd) \<le> 1 / 10 then
        (let v_co = Vec3 0 0 0;
             n = Vec3 0 0 1;
             mu = 1;
             v_rel = velocity_star nd - v_co;
             v_n = dot v_rel n
         in if v_n \<ge> 0 then nd
            else
              (let v_t = v_rel - scaleV v_n n;
                   v_rel' = (if length3 v_t \<le> - mu * v_n then Vec3 0 0 0
                             else v_t + scaleV (mu * v_n) (normalize v_t))
               in nd\<lparr>velocity_star := v_rel' + v_co\<rparr>))
      else nd)"

section \<open>Interpolation weights\<close>

text \<open>
  Modelled from the spec: \<^verbatim>\<open>weight\<close> and \<^verbatim>\<open>nabla_weight\<close> are declared in
  SnowSolver.h, which is not among the sources. The spec gives the one-dimensional cubic
  B-spline \<open>N\<close>, its derivative by piecewise differentiation, the weight
  \<open>N(dx) N(dy) N(dz)\<close> with \<open>d = (p - g) / h\<close> and the gradient
  \<open>(1/h) (N'(dx) N(dy) N(dz), N(dx) N'(dy) N(dz), N(dx) N(dy) N'(dz))\<close>.
\<close>

definition bspline :: "real \<Rightarrow> real" where
  "bspline x =
     (if \<bar>x\<bar> < 1 then 1 / 2 * \<bar>x\<bar> ^ 3 - x ^ 2 + 2 / 3
      else if \<bar>x\<bar> < 2 then - (\<bar>x\<bar> ^ 3) / 6 + x ^ 2 - 2 * \<bar>x\<bar> + 4 / 3
      else 0)"

text \<open>
  Modelled from the spec: the derivative \<open>N'\<close> of the B-spline, by piecewise
  differentiation (SnowSolver.h, where the code has it, is not among the sources).
\<close>

definition bspline' :: "real \<Rightarrow> real" where
  "bspline' x =
     (if \<bar>x\<bar> < 1 then 3 / 2 * x * \<bar>x\<bar> - 2 * x
      else if \<bar>x\<bar> < 2 then - (x * \<bar>x\<bar>) / 2 + 2 * x - 2 * sgn x
      else 0)"

text \<open>
  Modelled from the spec: \<^verbatim>\<open>weight(gridNode, particleNode)\<close> of SnowSolver.h, the
  product of the B-spline in the three components of \<open>(p - g) / h\<close>.
\<close>

definition weight :: "real \<Rightarrow> 'a node_scheme \<Rightarrow> 'b node_scheme \<Rightarrow> real" where
  "weight hh gn pn =
     (let d = divV (position pn - position gn) hh
      in bspline (vx d) * bspline (vy d) * bspline (vz d))"

text \<open>
  Modelled from the spec: \<^verbatim>\<open>nabla_weight(gridNode, particleNode)\<close> of SnowSolver.h,
  the gradient of the weight.
\<close>

definition nabla_weight :: "real \<Rightarrow> 'a node_scheme \<Rightarrow> 'b node_scheme \<Rightarrow> vec3" where
  "nabla_weight hh gn pn =
     (let d = divV (position pn - position gn) hh
      in scaleV (1 / hh)
           (Vec3 (bspline' (vx d) * bspline (vy d) * bspline (vz d))
                 (bspline (vx d) * bspline' (vy d) * bspline (vz d))
                 (bspline (vx d) * bspline (vy d) * bspline' (vz d))))"

section \<open>The solver state and the grid\<close>

text \<open>
  The grid nodes live in a \<^verbatim>\<open>std::vector\<close> that the code reaches by integer
  coordinates, \<^verbatim>\<open>this->gridNode(gx, gy, gz)\<close>. The accessor and the index formula are
  in SnowSolver.h, not among the sources, so the model keeps the nodes in a store keyed
  by the coordinates; the nodes of the vector are the ones at valid coordinates.
\<close>

type_synonym coord = "int \<times> int \<times> int"

record snowsolver =
  h :: real
  invh :: real
  size3 :: "nat \<times> nat \<times> nat"
  gridNodes :: "coord \<Rightarrow> gridnode"
  particleNodes :: "particlenode list"
  delta_t :: real
  mu0 :: real
  lambda0 :: real
  hardeningCoefficient :: real
  criticalCompression :: real
  criticalStretch :: real
  alpha :: real

text \<open>
  Modelled from the spec: \<^verbatim>\<open>isValidGridNode\<close> is declared in SnowSolver.h. The spec:
  nodes outside \<open>[0, N - 1]\<close> in some axis are invalid.
\<close>

definition isValidGridNode :: "nat \<times> nat \<times> nat \<Rightarrow> coord \<Rightarrow> bool" where
  "isValidGridNode sz c =
     (case sz of (nx, ny, nz) \<Rightarrow> case c of (gx, gy, gz) \<Rightarrow>
        0 \<le> gx \<and> gx < int nx \<and> 0 \<le> gy \<and> gy < int ny \<and> 0 \<le> gz \<and> gz < int nz)"

text \<open>The coordinates of the vector's nodes, in the order the constructor creates them.\<close>

definition grid_coords :: "nat \<times> nat \<times> nat \<Rightarrow> coord list" where
  "grid_coords sz =
     (case sz of (nx, ny, nz) \<Rightarrow>
        concat (map (\<lambda>x. concat (map (\<lambda>y. map (\<lambda>z. (x, y, z)) [0 .. int nz - 1])
                                     [0 .. int ny - 1]))
                    [0 .. int nx - 1]))"

text \<open>
  The constructor: node \<open>(x, y, z)\<close> gets the position \<open>(x, y, z) * h\<close> and the location
  \<open>(x, y, z)\<close>. The other fields are not initialised by the constructor; \<open>raw\<close> stands
  for what the memory holds.
\<close>

definition coord_vec :: "coord \<Rightarrow> vec3" where
  "coord_vec c = (case c of (gx, gy, gz) \<Rightarrow> Vec3 (real_of_int gx) (real_of_int gy) (real_of_int gz))"

definition SnowSolver :: "real \<Rightarrow> nat \<times> nat \<times> nat \<Rightarrow> snowsolver \<Rightarrow> snowsolver" where
  "SnowSolver hh sz raw =
     raw\<lparr>h := hh, invh := 1 / hh, size3 := sz,
         gridNodes := (\<lambda>c. (gridNodes raw c)
            \<lparr>position := scaleV hh (coord_vec c),
             location := (case c of (gx, gy, gz) \<Rightarrow> (nat gx, nat gy, nat gz))\<rparr>),
         particleNodes := []\<rparr>"

text \<open>\<^verbatim>\<open>for (auto &gridNode : gridNodes) { ... }\<close>: the body runs on every node of the vector.\<close>

definition for_gridNodes :: "nat \<times> nat \<times> nat \<Rightarrow> (gridnode \<Rightarrow> gridnode) \<Rightarrow> (coord \<Rightarrow> gridnode) \<Rightarrow> (coord \<Rightarrow> gridnode)" where
  "for_gridNodes sz body g = (\<lambda>c. if isValidGridNode sz c then body (g c) else g c)"

text \<open>
  The conversion \<^verbatim>\<open>glm::ivec3(dvec3)\<close> converts each component from \<^verbatim>\<open>double\<close> to
  \<^verbatim>\<open>int\<close>, which truncates toward zero.
\<close>

definition trunc_int :: "real \<Rightarrow> int" where
  "trunc_int r = (if r \<ge> 0 then \<lfloor>r\<rfloor> else \<lceil>r\<rceil>)"

definition ivec3 :: "vec3 \<Rightarrow> coord" where
  "ivec3 v = (trunc_int (vx v), trunc_int (vy v), trunc_int (vz v))"

definition gmin :: "real \<Rightarrow> 'a node_scheme \<Rightarrow> coord" where
  "gmin hh pn = ivec3 (divV (position pn) hh - Vec3 1 1 1)"

definition gmax :: "real \<Rightarrow> 'a node_scheme \<Rightarrow> coord" where
  "gmax hh pn = ivec3 (divV (position pn) hh + Vec3 2 2 2)"

text \<open>
  The three nested loops \<^verbatim>\<open>for gx\<close>, \<^verbatim>\<open>for gy\<close>, \<^verbatim>\<open>for gz\<close> from \<open>gmin\<close> to \<open>gmax\<close>
  inclusive: the coordinates they visit, in order.
\<close>

definition box :: "coord \<Rightarrow> coord \<Rightarrow> coord list" where
  "box lo hi =
     (case lo of (lx, ly, lz) \<Rightarrow> case hi of (hx, hy, hz) \<Rightarrow>
        concat (map (\<lambda>x. concat (map (\<lambda>y. map (\<lambda>z. (x, y, z)) [lz .. hz]) [ly .. hy]))
                    [lx .. hx]))"

definition window :: "real \<Rightarrow> 'a node_scheme \<Rightarrow> coord list" where
  "window hh pn = box (gmin hh pn) (gmax hh pn)"

text \<open>
  The loops with the guard \<^verbatim>\<open>if (!isValidGridNode(gx, gy, gz)) continue;\<close>: the body
  runs on the valid coordinates of the window only.
\<close>

definition valid_window :: "snowsolver \<Rightarrow> 'a node_scheme \<Rightarrow> coord list" where
  "valid_window s pn = filter (isValidGridNode (size3 s)) (window (h s) pn)"

section \<open>Step 1: rasterize particle data to the grid\<close>

definition step1_reset :: "snowsolver \<Rightarrow> nat \<Rightarrow> coord \<Rightarrow> gridnode" where
  "step1_reset s n =
     for_gridNodes (size3 s) (\<lambda>nd. set_velocity n 0 (nd\<lparr>mass := 0\<rparr>)) (gridNodes s)"

definition rasterize_node :: "snowsolver \<Rightarrow> nat \<Rightarrow> particlenode \<Rightarrow> gridnode \<Rightarrow> gridnode" where
  "rasterize_node s n pn nd =
     (let particleWeightedMass = mass pn * weight (h s) nd pn
      in set_velocity n (velocity nd n + scaleV particleWeightedMass (velocity pn n))
           (nd\<lparr>mass := mass nd + particleWeightedMass\<rparr>))"

definition rasterize_particle ::
  "snowsolver \<Rightarrow> nat \<Rightarrow> particlenode \<Rightarrow> (coord \<Rightarrow> gridnode) \<Rightarrow> (coord \<Rightarrow> gridnode)" where
  "rasterize_particle s n pn g =
     fold (\<lambda>c g. g(c := rasterize_node s n pn (g c))) (valid_window s pn) g"

definition step1_accumulate :: "snowsolver \<Rightarrow> nat \<Rightarrow> coord \<Rightarrow> gridnode" where
  "step1_accumulate s n = fold (rasterize_particle s n) (particleNodes s) (step1_reset s n)"

text \<open>
  The last loop of step 1. Its test \<^verbatim>\<open>glm::length(gridNode.velocity(n)) > 0\<close> is on the
  computed length.
\<close>

definition step1_normalize :: "nat \<Rightarrow> gridnode \<Rightarrow> gridnode" where
  "step1_normalize n nd =
     (if glm_length (velocity nd n) > 0 \<and> mass nd > 0
      then set_velocity n (divV (velocity nd n) (mass nd)) nd
      else set_velocity n 0 nd)"

definition step1 :: "snowsolver \<Rightarrow> nat \<Rightarrow> snowsolver" where
  "step1 s n =
     s\<lparr>gridNodes := for_gridNodes (size3 s) (step1_normalize n) (step1_accumulate s n)\<rparr>"

section \<open>Step 2: particle volumes and densities (only when n = 0)\<close>

definition step2_density0 :: "snowsolver \<Rightarrow> coord \<Rightarrow> gridnode" where
  "step2_density0 s =
     for_gridNodes (size3 s) (\<lambda>nd. nd\<lparr>density0 := mass nd / (h s * h s * h s)\<rparr>) (gridNodes s)"

text \<open>
  Modelled from the spec: the accessor \<^verbatim>\<open>this->gridNode(gx, gy, gz)\<close> is declared in
  SnowSolver.h. It returns a reference into the node vector; at coordinates that the
  spec calls invalid there is no node, and the read is outside the vector. The model
  returns \<open>None\<close> there.
\<close>

definition gridNode :: "snowsolver \<Rightarrow> coord \<Rightarrow> gridnode option" where
  "gridNode s c = (if isValidGridNode (size3 s) c then Some (gridNodes s c) else None)"

text \<open>
  The density gather of one particle. Its loops have no \<^verbatim>\<open>isValidGridNode\<close> guard:
  the body reads \<^verbatim>\<open>this->gridNode(gx, gy, gz)\<close> at every coordinate of the window.
\<close>

definition particleNodeDensity0 :: "snowsolver \<Rightarrow> particlenode \<Rightarrow> real option" where
  "particleNodeDensity0 s pn =
     fold (\<lambda>c acc.
             case acc of None \<Rightarrow> None
             | Some d \<Rightarrow>
                 (case gridNode s c of None \<Rightarrow> None
                  | Some nd \<Rightarrow> Some (d + density0 nd * weight (h s) nd pn)))
          (window (h s) pn) (Some 0)"

definition step2_particle :: "snowsolver \<Rightarrow> particlenode \<Rightarrow> particlenode option" where
  "step2_particle s pn =
     (case particleNodeDensity0 s pn of None \<Rightarrow> None
      | Some d \<Rightarrow> Some (pn\<lparr>volume0 := mass pn / d\<rparr>))"

definition step2 :: "snowsolver \<Rightarrow> snowsolver option" where
  "step2 s =
     (let s1 = s\<lparr>gridNodes := step2_density0 s\<rparr>
      in case those (map (step2_particle s1) (particleNodes s1)) of None \<Rightarrow> None
         | Some ps \<Rightarrow> Some (s1\<lparr>particleNodes := ps\<rparr>))"

section \<open>Singular value decomposition\<close>

text \<open>
  \<^verbatim>\<open>svd\<close> calls Eigen's \<^verbatim>\<open>JacobiSVD\<close> with full \<open>U\<close> and \<open>V\<close>. Eigen is a library
  outside this repository, so the decomposition is a parameter of the model: a function
  from a matrix to \<open>(U, e, V)\<close>.
\<close>

type_synonym svd_fun = "mat3 \<Rightarrow> mat3 \<times> vec3 \<times> mat3"

definition polarRot :: "svd_fun \<Rightarrow> mat3 \<Rightarrow> mat3" where
  "polarRot svd m = (case svd m of (u, e, v) \<Rightarrow> u * transpose3 v)"

definition polarDecompose :: "svd_fun \<Rightarrow> mat3 \<Rightarrow> mat3 \<times> mat3" where
  "polarDecompose svd m =
     (case svd m of (u, e, v) \<Rightarrow>
        (u * transpose3 v,
         v * dmat3 (vx e) 0 0 0 (vy e) 0 0 0 (vz e) * transpose3 v))"

section \<open>Step 3: grid forces\<close>

definition step3_gravity :: "snowsolver \<Rightarrow> coord \<Rightarrow> gridnode" where
  "step3_gravity s =
     for_gridNodes (size3 s) (\<lambda>nd. nd\<lparr>force := Vec3 0 0 (- (98 / 10) * mass nd)\<rparr>) (gridNodes s)"

definition unweightedForce :: "svd_fun \<Rightarrow> snowsolver \<Rightarrow> particlenode \<Rightarrow> mat3" where
  "unweightedForce svd s pn =
     (let jp = determinant (deformPlastic pn);
          je = determinant (deformElastic pn);
          e = exp (hardeningCoefficient s * (1 - jp));
          mu = mu0 s * e;
          lambda = lambda0 s * e
      in scaleM (- volume0 pn)
           (scaleM (2 * mu) (deformElastic pn - polarRot svd (deformElastic pn))
              * transpose3 (deformElastic pn)
            + dmat3_scalar (lambda * (je - 1) * je)))"

definition step3_particle ::
  "svd_fun \<Rightarrow> snowsolver \<Rightarrow> particlenode \<Rightarrow> (coord \<Rightarrow> gridnode) \<Rightarrow> (coord \<Rightarrow> gridnode)" where
  "step3_particle svd s pn g =
     (let uf = unweightedForce svd s pn
      in fold (\<lambda>c g. g(c := (g c)\<lparr>force := force (g c)
                                   + mat_vec uf (nabla_weight (h s) (g c) pn)\<rparr>))
              (valid_window s pn) g)"

definition step3 :: "svd_fun \<Rightarrow> snowsolver \<Rightarrow> snowsolver" where
  "step3 svd s =
     s\<lparr>gridNodes := fold (step3_particle svd s) (particleNodes s) (step3_gravity s)\<rparr>"

section \<open>Steps 4 and 5: explicit velocities and collisions on the grid\<close>

definition step45_node :: "real \<Rightarrow> nat \<Rightarrow> gridnode \<Rightarrow> gridnode" where
  "step45_node dt n nd =
     (let nd1 = nd\<lparr>velocity_star := velocity nd n\<rparr>;
          nd2 = (if glm_length (force nd1) > 0 \<and> mass nd1 > 0
                 then nd1\<lparr>velocity_star := velocity_star nd1
                                            + divV (scaleV dt (force nd1)) (mass nd1)\<rparr>
                 else nd1)
      in handleNodeCollisionVelocityUpdate nd2)"

definition step45 :: "snowsolver \<Rightarrow> real \<Rightarrow> nat \<Rightarrow> snowsolver" where
  "step45 s dt n = s\<lparr>gridNodes := for_gridNodes (size3 s) (step45_node dt n) (gridNodes s)\<rparr>"

section \<open>Step 6: the linear system (the solver call is commented out)\<close>

text \<open>
  The code copies every node's \<^verbatim>\<open>velocity_star\<close> into the vectors
  \<^verbatim>\<open>velocity_star\<close> and \<^verbatim>\<open>velocity_next\<close>, leaves them alone (the call of the
  conjugate residual solver is a comment) and writes \<^verbatim>\<open>velocity_next\<close> back into
  \<^verbatim>\<open>velocity(n + 1)\<close>. The counter \<open>n\<close> is an \<^verbatim>\<open>unsigned int\<close>; \<open>n + 1\<close> wraps at
  \<open>2\<^sup>3\<^sup>2\<close>, which keeps the parity that selects the buffer, so \<open>n\<close> is a natural number
  here.
\<close>

definition step6 :: "snowsolver \<Rightarrow> nat \<Rightarrow> snowsolver" where
  "step6 s n =
     (let velocity_star_vec = (\<lambda>c. velocity_star (gridNodes s c));
          velocity_next = (\<lambda>c. velocity_star (gridNodes s c))
      in s\<lparr>gridNodes :=
            (\<lambda>c. if isValidGridNode (size3 s) c
                  then set_velocity (n + 1) (velocity_next c) (gridNodes s c)
                  else gridNodes s c)\<rparr>)"

section \<open>Steps 7 to 10: the particle update\<close>

text \<open>\<^verbatim>\<open>glm::dmat3 nabla_v{}\<close> starts from the zero matrix.\<close>

definition nabla_v :: "snowsolver \<Rightarrow> nat \<Rightarrow> particlenode \<Rightarrow> mat3" where
  "nabla_v s n pn =
     fold (\<lambda>c acc. acc + outerProduct (velocity (gridNodes s c) (n + 1))
                                       (nabla_weight (h s) (gridNodes s c) pn))
          (valid_window s pn) 0"

definition multiplier :: "snowsolver \<Rightarrow> real \<Rightarrow> nat \<Rightarrow> particlenode \<Rightarrow> mat3" where
  "multiplier s dt n pn = 1 + scaleM dt (nabla_v s n pn)"

definition deformElastic_prime :: "snowsolver \<Rightarrow> real \<Rightarrow> nat \<Rightarrow> particlenode \<Rightarrow> mat3" where
  "deformElastic_prime s dt n pn = multiplier s dt n pn * deformElastic pn"

definition step7 :: "svd_fun \<Rightarrow> snowsolver \<Rightarrow> real \<Rightarrow> nat \<Rightarrow> particlenode \<Rightarrow> particlenode" where
  "step7 svd s dt n pn =
     (let deform = deformElastic pn * deformPlastic pn;
          deform_prime = multiplier s dt n pn * deform
      in case svd (deformElastic_prime s dt n pn) of (u, e0, v) \<Rightarrow>
           (let e = clampV e0 (1 - criticalCompression s) (1 + criticalStretch s)
            in pn\<lparr>deformElastic :=
                     u * dmat3 (vx e) 0 0 0 (vy e) 0 0 0 (vz e) * transpose3 v,
                   deformPlastic :=
                     v * dmat3 (1 / vx e) 0 0 0 (1 / vy e) 0 0 0 (1 / vz e) * transpose3 u
                       * deform_prime\<rparr>))"

definition pic_flip :: "snowsolver \<Rightarrow> nat \<Rightarrow> particlenode \<Rightarrow> vec3 \<times> vec3" where
  "pic_flip s n pn =
     fold (\<lambda>c (v_pic, v_flip).
             (let gn = gridNodes s c;
                  w = weight (h s) gn pn;
                  gv = velocity gn n;
                  gv1 = velocity gn (n + 1)
              in (v_pic + scaleV w gv1, v_flip + scaleV w (gv1 - gv))))
          (valid_window s pn) (0, velocity pn n)"

definition step8_10 :: "snowsolver \<Rightarrow> real \<Rightarrow> nat \<Rightarrow> particlenode \<Rightarrow> particlenode" where
  "step8_10 s dt n pn =
     (case pic_flip s n pn of (v_pic, v_flip) \<Rightarrow>
        (let pn1 = pn\<lparr>velocity_star := scaleV (1 - alpha s) v_pic + scaleV (alpha s) v_flip\<rparr>;
             pn2 = handleNodeCollisionVelocityUpdate pn1;
             pn3 = set_velocity (n + 1) (velocity_star pn2) pn2
         in pn3\<lparr>position := position pn3 + scaleV dt (velocity pn3 (n + 1))\<rparr>))"

definition step7_10 :: "svd_fun \<Rightarrow> snowsolver \<Rightarrow> real \<Rightarrow> nat \<Rightarrow> snowsolver" where
  "step7_10 svd s dt n =
     s\<lparr>particleNodes := map (\<lambda>pn. step8_10 s dt n (step7 svd s dt n pn)) (particleNodes s)\<rparr>"

section \<open>The tick\<close>

text \<open>
  \<^verbatim>\<open>SnowSolver::update(delta_t, n)\<close>. The result is \<open>None\<close> when step 2 reads outside
  the node vector.
\<close>

definition update :: "svd_fun \<Rightarrow> snowsolver \<Rightarrow> real \<Rightarrow> nat \<Rightarrow> snowsolver option" where
  "update svd s dt n =
     (let s1 = step1 s n
      in case (if n = 0 then step2 s1 else Some s1) of None \<Rightarrow> None
         | Some s2 \<Rightarrow>
             Some (step7_10 svd (step6 (step45 (step3 svd s2) dt n) n) dt n))"

section \<open>The implicit operator\<close>

text \<open>\<^verbatim>\<open>m[i][j]\<close>: column \<open>i\<close>, row \<open>j\<close>.\<close>

definition el :: "mat3 \<Rightarrow> nat \<Rightarrow> nat \<Rightarrow> real" where
  "el m i j =
     (let c = (if i = 0 then col0 m else if i = 1 then col1 m else col2 m)
      in if j = 0 then vx c else if j = 1 then vy c else vz c)"

definition ddot :: "mat3 \<Rightarrow> mat3 \<Rightarrow> real" where
  "ddot a b =
     el a 0 0 * el b 0 0 + el a 0 1 * el b 0 1 + el a 0 2 * el b 0 2 +
     el a 1 0 * el b 1 0 + el a 1 1 * el b 1 1 + el a 1 2 * el b 1 2 +
     el a 2 0 * el b 2 0 + el a 2 1 * el b 2 1 + el a 2 2 * el b 2 2"

text \<open>\<^verbatim>\<open>glm::inverse\<close> of a 3 by 3 matrix: the adjugate times one over the determinant.\<close>

definition inverse3 :: "mat3 \<Rightarrow> mat3" where
  "inverse3 m =
     (let OneOverDeterminant = 1 / determinant m
      in Mat3
           (Vec3 ((el m 1 1 * el m 2 2 - el m 2 1 * el m 1 2) * OneOverDeterminant)
                 (- (el m 0 1 * el m 2 2 - el m 2 1 * el m 0 2) * OneOverDeterminant)
                 ((el m 0 1 * el m 1 2 - el m 1 1 * el m 0 2) * OneOverDeterminant))
           (Vec3 (- (el m 1 0 * el m 2 2 - el m 2 0 * el m 1 2) * OneOverDeterminant)
                 ((el m 0 0 * el m 2 2 - el m 2 0 * el m 0 2) * OneOverDeterminant)
                 (- (el m 0 0 * el m 1 2 - el m 1 0 * el m 0 2) * OneOverDeterminant))
           (Vec3 ((el m 1 0 * el m 2 1 - el m 2 0 * el m 1 1) * OneOverDeterminant)
                 (- (el m 0 0 * el m 2 1 - el m 2 0 * el m 0 1) * OneOverDeterminant)
                 ((el m 0 0 * el m 1 1 - el m 1 0 * el m 0 1) * OneOverDeterminant)))"

definition del_deformElastic ::
  "real \<Rightarrow> snowsolver \<Rightarrow> (coord \<Rightarrow> vec3) \<Rightarrow> particlenode \<Rightarrow> mat3" where
  "del_deformElastic dt s v_next pn =
     scaleM dt
       (fold (\<lambda>c acc. acc + outerProduct (v_next c) (nabla_weight (h s) (gridNodes s c) pn))
             (valid_window s pn) 0)
     * deformElastic pn"

definition del_polarRotDeformElastic :: "svd_fun \<Rightarrow> particlenode \<Rightarrow> mat3 \<Rightarrow> mat3" where
  "del_polarRotDeformElastic svd pn dfe =
     (case polarDecompose svd (deformElastic pn) of (r, sm) \<Rightarrow>
        (let rtdf_dftr = transpose3 r * dfe - transpose3 dfe * r;
             del_r = mat_vec
                       (inverse3 (dmat3 (el sm 0 0 + el sm 1 1) (el sm 1 2)
                                        (- el sm 0 2) (el sm 2 1) (el sm 0 0 + el sm 2 2) (el sm 1 0)
                                        (- el sm 0 2) (el sm 0 1) (el sm 1 1 + el sm 2 2)))
                       (Vec3 (el rtdf_dftr 0 1) (el rtdf_dftr 0 2) (el rtdf_dftr 1 2))
         in dmat3 0 (- vx del_r) (- vy del_r)
                  (vx del_r) 0 (- vz del_r)
                  (vy del_r) (vz del_r) 0))"

definition del_cofactor_deformElastic :: "mat3 \<Rightarrow> mat3 \<Rightarrow> mat3" where
  "del_cofactor_deformElastic cde dfe =
     dmat3
       (ddot (dmat3 0 0 0
                    0 (el cde 2 2) (- el cde 2 1)
                    0 (- el cde 1 2) (el cde 1 1)) dfe)
       (ddot (dmat3 0 0 0
                    (- el cde 2 2) 0 (el cde 2 0)
                    (el cde 1 2) 0 (- el cde 1 0)) dfe)
       (ddot (dmat3 0 0 0
                    (el cde 2 1) (- el cde 2 0) 0
                    (- el cde 1 1) (el cde 1 0) 0) dfe)
       (ddot (dmat3 0 (- el cde 2 2) (el cde 2 1)
                    0 0 0
                    0 (el cde 0 2) (- el cde 0 1)) dfe)
       (ddot (dmat3 (el cde 2 2) 0 (- el cde 2 0)
                    0 0 0
                    (- el cde 0 2) 0 (el cde 0 0)) dfe)
       (ddot (dmat3 (- el cde 2 1) (el cde 2 0) 0
                    0 0 0
                    (el cde 0 1) (- el cde 0 0) 0) dfe)
       (ddot (dmat3 0 (el cde 1 2) (- el cde 1 1)
                    0 (- el cde 0 2) (el cde 0 1)
                    0 0 0) dfe)
       (ddot (dmat3 (- el cde 1 2) 0 (el cde 1 0)
                    (el cde 0 2) 0 (- el cde 0 0)
                    0 0 0) dfe)
       (ddot (dmat3 (el cde 1 1) (- el cde 1 0) 0
                    (- el cde 0 1) (el cde 0 0) 0
                    0 0 0) dfe)"

definition unweightedDelForce ::
  "real \<Rightarrow> svd_fun \<Rightarrow> snowsolver \<Rightarrow> (coord \<Rightarrow> vec3) \<Rightarrow> particlenode \<Rightarrow> mat3" where
  "unweightedDelForce dt svd s v_next pn =
     (let dfe = del_deformElastic dt s v_next pn;
          dpr = del_polarRotDeformElastic svd pn dfe;
          jp = determinant (deformPlastic pn);
          je = determinant (deformElastic pn);
          e = exp (hardeningCoefficient s * (1 - jp));
          mu = mu0 s * e;
          lambda = lambda0 s * e;
          cofactor_deformElastic = scaleM je (transpose3 (inverse3 (deformElastic pn)));
          del_je = ddot cofactor_deformElastic dfe;
          dcof = del_cofactor_deformElastic cofactor_deformElastic dfe
      in scaleM (- volume0 pn)
           (scaleM (2 * mu) (dfe - dpr)
            + scaleM lambda (scaleM del_je cofactor_deformElastic + scaleM (je - 1) dcof))
         * transpose3 (deformElastic pn))"

definition del_f ::
  "real \<Rightarrow> svd_fun \<Rightarrow> snowsolver \<Rightarrow> (coord \<Rightarrow> vec3) \<Rightarrow> coord \<Rightarrow> vec3" where
  "del_f dt svd s v_next =
     fold (\<lambda>pn df.
             (let udf = unweightedDelForce dt svd s v_next pn
              in fold (\<lambda>c df. df(c := df c + mat_vec udf (nabla_weight (h s) (gridNodes s c) pn)))
                      (valid_window s pn) df))
          (particleNodes s) (\<lambda>c. 0)"

text \<open>
  The body of \<^verbatim>\<open>implicitVelocityIntegrationMatrix\<close> after its two local constants,
  as a function of them. (The vector \<^verbatim>\<open>x_next\<close> that the code fills first is never
  read.)
\<close>

definition implicit_body ::
  "real \<Rightarrow> real \<Rightarrow> svd_fun \<Rightarrow> snowsolver \<Rightarrow> (coord \<Rightarrow> vec3) \<Rightarrow> (coord \<Rightarrow> vec3) \<Rightarrow> coord \<Rightarrow> vec3" where
  "implicit_body dt beta svd s Av_next v_next =
     (\<lambda>c. if isValidGridNode (size3 s) c
           then (if mass (gridNodes s c) > 0
                 then v_next c - divV (scaleV (beta * dt) (del_f dt svd s v_next c))
                                      (mass (gridNodes s c))
                 else v_next c)
           else Av_next c)"

text \<open>
  \<^verbatim>\<open>SnowSolver::implicitVelocityIntegrationMatrix(Av_next, v_next)\<close> with its
  \<^verbatim>\<open>double delta_t = 5e-3; double beta = 1;\<close> under the comment
  \<^verbatim>\<open>FIXME: Hardcoded here for now\<close>.
\<close>

definition implicitVelocityIntegrationMatrix ::
  "svd_fun \<Rightarrow> snowsolver \<Rightarrow> (coord \<Rightarrow> vec3) \<Rightarrow> (coord \<Rightarrow> vec3) \<Rightarrow> coord \<Rightarrow> vec3" where
  "implicitVelocityIntegrationMatrix svd s Av_next v_next =
     (let dt = 5 / 1000; beta = 1 in implicit_body dt beta svd s Av_next v_next)"

section \<open>Notions of the specification\<close>

text \<open>
  A matrix is orthogonal when its transpose is its inverse on both sides. Eigen returns
  orthogonal \<open>U\<close> and \<open>V\<close> and non-negative singular values \<open>e\<close> with
  \<open>m = U diag(e) V\<^sup>T\<close>; \<open>svd_ok svd m\<close> says that \<open>svd\<close> does so at \<open>m\<close>.
\<close>

definition orthogonal3 :: "mat3 \<Rightarrow> bool" where
  "orthogonal3 m \<longleftrightarrow> transpose3 m * m = 1 \<and> m * transpose3 m = 1"

definition svd_ok :: "svd_fun \<Rightarrow> mat3 \<Rightarrow> bool" where
  "svd_ok svd m =
     (case svd m of (u, e, v) \<Rightarrow>
        orthogonal3 u \<and> orthogonal3 v \<and> 0 \<le> vx e \<and> 0 \<le> vy e \<and> 0 \<le> vz e \<and>
        m = u * dmat3 (vx e) 0 0 0 (vy e) 0 0 0 (vz e) * transpose3 v)"

text \<open>
  The singular values of \<open>m\<close> are the non-negative square roots of the eigenvalues of
  \<open>m\<^sup>T m\<close>: the non-negative \<open>\<sigma>\<close> with \<open>det (m\<^sup>T m - \<sigma>\<^sup>2 I) = 0\<close>.
\<close>

definition is_singular_value :: "mat3 \<Rightarrow> real \<Rightarrow> bool" where
  "is_singular_value m sigma \<longleftrightarrow>
     0 \<le> sigma \<and> determinant (transpose3 m * m - dmat3_scalar (sigma * sigma)) = 0"

text \<open>
  The stress of the spec, \<open>P = 2\<mu> (F\<^sub>E - R\<^sub>E) F\<^sub>E\<^sup>T + \<lambda> (J\<^sub>E - 1) J\<^sub>E I\<close> with the hardening
  \<open>e = exp (\<xi> (1 - det F\<^sub>P))\<close>, \<open>\<mu> = \<mu>\<^sub>0 e\<close>, \<open>\<lambda> = \<lambda>\<^sub>0 e\<close>.
\<close>

definition stress_P :: "svd_fun \<Rightarrow> snowsolver \<Rightarrow> particlenode \<Rightarrow> mat3" where
  "stress_P svd s pn =
     (let e = exp (hardeningCoefficient s * (1 - determinant (deformPlastic pn)));
          mu = mu0 s * e;
          lambda = lambda0 s * e;
          R_E = polarRot svd (deformElastic pn);
          J_E = determinant (deformElastic pn)
      in scaleM (2 * mu) ((deformElastic pn - R_E) * transpose3 (deformElastic pn))
         + scaleM (lambda * (J_E - 1) * J_E) 1)"

text \<open>
  The neighbourhood of a particle in the spec: the node \<open>(x, y, z)\<close> with
  \<open>\<lfloor>p/h\<rfloor> - 1 \<le> (x, y, z) \<le> \<lfloor>p/h\<rfloor> + 2\<close> in every axis, four nodes by four by four.
\<close>

definition spec_window :: "real \<Rightarrow> 'a node_scheme \<Rightarrow> coord \<Rightarrow> bool" where
  "spec_window hh pn c =
     (case c of (x, y, z) \<Rightarrow>
        \<lfloor>vx (position pn) / hh\<rfloor> - 1 \<le> x \<and> x \<le> \<lfloor>vx (position pn) / hh\<rfloor> + 2 \<and>
        \<lfloor>vy (position pn) / hh\<rfloor> - 1 \<le> y \<and> y \<le> \<lfloor>vy (position pn) / hh\<rfloor> + 2 \<and>
        \<lfloor>vz (position pn) / hh\<rfloor> - 1 \<le> z \<and> z \<le> \<lfloor>vz (position pn) / hh\<rfloor> + 2)"

text \<open>The sum of the masses of the grid nodes, and of the particles.\<close>

definition totalGridNodeMass :: "snowsolver \<Rightarrow> real" where
  "totalGridNodeMass s = sum_list (map (\<lambda>c. mass (gridNodes s c)) (grid_coords (size3 s)))"

definition totalParticleMass :: "snowsolver \<Rightarrow> real" where
  "totalParticleMass s = sum_list (map mass (particleNodes s))"

text \<open>
  The grid as the constructor builds it and every step leaves it: the node at \<open>c\<close> sits
  at \<open>h * c\<close>.
\<close>

definition grid_positions_ok :: "snowsolver \<Rightarrow> bool" where
  "grid_positions_ok s \<longleftrightarrow>
     list_all (\<lambda>c. position (gridNodes s c) = scaleV (h s) (coord_vec c)) (grid_coords (size3 s))"

text \<open>
  The window of the spec, \<open>\<lfloor>p/h\<rfloor> - 1 \<dots> \<lfloor>p/h\<rfloor> + 2\<close> in every axis, lies inside the grid.
\<close>

definition window_inside :: "snowsolver \<Rightarrow> 'a node_scheme \<Rightarrow> bool" where
  "window_inside s pn =
     (let q = divV (position pn) (h s)
      in isValidGridNode (size3 s) (\<lfloor>vx q\<rfloor> - 1, \<lfloor>vy q\<rfloor> - 1, \<lfloor>vz q\<rfloor> - 1) \<and>
         isValidGridNode (size3 s) (\<lfloor>vx q\<rfloor> + 2, \<lfloor>vy q\<rfloor> + 2, \<lfloor>vz q\<rfloor> + 2))"

section \<open>Example states\<close>

definition ex_gridnode :: "real \<Rightarrow> coord \<Rightarrow> gridnode" where
  "ex_gridnode hh c =
     \<lparr>position = scaleV hh (coord_vec c), velocity_even = 0, velocity_odd = 0,
      velocity_star = 0, mass = 1, density0 = 0,
      location = (case c of (gx, gy, gz) \<Rightarrow> (nat gx, nat gy, nat gz)), force = 0\<rparr>"

definition ex_particle :: "vec3 \<Rightarrow> particlenode" where
  "ex_particle p =
     \<lparr>position = p, velocity_even = 0, velocity_odd = 0, velocity_star = 0, mass = 2,
      volume0 = 1, deformElastic = 1, deformPlastic = 1\<rparr>"

definition ex_solver :: "nat \<times> nat \<times> nat \<Rightarrow> particlenode list \<Rightarrow> snowsolver" where
  "ex_solver sz ps =
     \<lparr>h = 1, invh = 1, size3 = sz, gridNodes = ex_gridnode 1, particleNodes = ps,
      delta_t = 1 / 100000, mu0 = 1, lambda0 = 1, hardeningCoefficient = 10,
      criticalCompression = 25 / 1000, criticalStretch = 75 / 10000, alpha = 95 / 100\<rparr>"

text \<open>
  A decomposition that is right on diagonal matrices with non-negative entries
  (\<open>U = V = I\<close>), for the examples.
\<close>

definition svd_diag :: svd_fun where
  "svd_diag m = (1, Vec3 (vx (col0 m)) (vy (col1 m)) (vz (col2 m)), 1)"

definition floor_node :: "vec3 \<Rightarrow> node" where
  "floor_node v =
     \<lparr>position = Vec3 0 0 0, velocity_even = 0, velocity_odd = 0, velocity_star = v, mass = 1\<rparr>"

definition ex1 :: snowsolver where
  "ex1 = ex_solver (4, 4, 4) [ex_particle (Vec3 (3 / 2) (3 / 2) (3 / 2))]"

definition ex2 :: snowsolver where
  "ex2 = ex_solver (4, 4, 4) [ex_particle (Vec3 (5 / 2) (5 / 2) (5 / 2))]"

text \<open>
  A state in motion: a grid of 6 by 6 by 6 nodes with \<open>h = 1\<close> whose node \<open>(1, 2, 2)\<close>
  has the velocity \<open>(-9/2, 0, 0)\<close> at odd times, and one particle at \<open>(2, 2, 2)\<close> with the
  velocity \<open>v\<close> at even times, compressed to a half along \<open>z\<close>.
\<close>

definition ex3_gridnode :: "coord \<Rightarrow> gridnode" where
  "ex3_gridnode c =
     (ex_gridnode 1 c)\<lparr>velocity_odd := (if c = (1, 2, 2) then Vec3 (- (9 / 2)) 0 0 else 0)\<rparr>"

definition ex3_particle :: "vec3 \<Rightarrow> particlenode" where
  "ex3_particle v =
     \<lparr>position = Vec3 2 2 2, velocity_even = v, velocity_odd = 0, velocity_star = 0,
      mass = 2, volume0 = 1,
      deformElastic = dmat3 1 0 0 0 1 0 0 0 (1 / 2),
      deformPlastic = dmat3 2 0 0 0 (1 / 2) 0 0 0 1\<rparr>"

definition ex3 :: "vec3 \<Rightarrow> snowsolver" where
  "ex3 v = (ex_solver (6, 6, 6) [ex3_particle v])\<lparr>gridNodes := ex3_gridnode\<rparr>"

text \<open>A velocity field on the grid: \<open>(1, 0, 0)\<close> at the node \<open>(1, 1, 1)\<close>, zero elsewhere.\<close>

definition ex_v_next :: "coord \<Rightarrow> vec3" where
  "ex_v_next c = (if c = (1, 1, 1) then Vec3 1 0 0 else 0)"

section \<open>Basic facts\<close>

lemma vec3_eq_iff: "a = b \<longleftrightarrow> vx a = vx b \<and> vy a = vy b \<and> vz a = vz b"
  by (cases a, cases b) simp

lemma vec3_sel_simps:
  "vx (a + b) = vx a + vx b" "vy (a + b) = vy a + vy b" "vz (a + b) = vz a + vz b"
  "vx (a - b) = vx a - vx b" "vy (a - b) = vy a - vy b" "vz (a - b) = vz a - vz b"
  "vx (- a) = - vx a" "vy (- a) = - vy a" "vz (- a) = - vz a"
  "vx 0 = 0" "vy 0 = 0" "vz 0 = 0"
  "vx (scaleV s a) = s * vx a" "vy (scaleV s a) = s * vy a" "vz (scaleV s a) = s * vz a"
  "vx (divV a s) = vx a / s" "vy (divV a s) = vy a / s" "vz (divV a s) = vz a / s"
  by (simp_all add: plus_vec3_def minus_vec3_def uminus_vec3_def zero_vec3_def scaleV_def
      divV_def)

subsection \<open>The collision handler\<close>

lemma handle_cases:
  "handleNodeCollisionVelocityUpdate nd = nd \<or>
   vz (velocity_star (handleNodeCollisionVelocityUpdate nd)) = 0"
  by (simp add: handleNodeCollisionVelocityUpdate_def Let_def dot_def vec3_sel_simps
      normalize_def scaleV_def plus_vec3_def minus_vec3_def)

lemma handle_vz0:
  "vz (velocity_star nd) = 0 \<Longrightarrow> handleNodeCollisionVelocityUpdate nd = nd"
  by (simp add: handleNodeCollisionVelocityUpdate_def Let_def dot_def vec3_sel_simps)

subsection \<open>The velocity buffers\<close>

lemma velocity_set_velocity [simp]:
  "velocity (set_velocity n v nd) n = v"
  by (simp add: velocity_def set_velocity_def)

lemma set_velocity_fields [simp]:
  "mass (set_velocity n v nd) = mass nd"
  "position (set_velocity n v nd) = position nd"
  "velocity_star (set_velocity n v nd) = velocity_star nd"
  by (simp_all add: set_velocity_def)

lemma velocity_set_velocity_Suc [simp]:
  "velocity (set_velocity (Suc n) v nd) n = velocity nd n"
  "velocity (set_velocity n v nd) (Suc n) = velocity nd (Suc n)"
  by (simp_all add: velocity_def set_velocity_def)

lemma divV_zero [simp]: "divV 0 m = 0"
  by (simp add: divV_def zero_vec3_def)

subsection \<open>Windows and grid coordinates\<close>

lemma box_product:
  "box (lx, ly, lz) (hx, hy, hz) =
   List.product [lx .. hx] (List.product [ly .. hy] [lz .. hz])"
  by (simp add: box_def product_concat_map map_concat comp_def)

lemma set_box:
  "set (box (lx, ly, lz) (hx, hy, hz)) =
   {(x, y, z). lx \<le> x \<and> x \<le> hx \<and> ly \<le> y \<and> y \<le> hy \<and> lz \<le> z \<and> z \<le> hz}"
  by (auto simp: box_product)

lemma distinct_box: "distinct (box lo hi)"
  by (cases lo, cases hi) (simp add: box_product distinct_product)

lemma grid_coords_box:
  "grid_coords (nx, ny, nz) = box (0, 0, 0) (int nx - 1, int ny - 1, int nz - 1)"
  by (simp add: grid_coords_def box_def)

lemma set_grid_coords: "set (grid_coords sz) = {c. isValidGridNode sz c}"
  by (cases sz) (auto simp: grid_coords_box set_box isValidGridNode_def)

lemma distinct_grid_coords: "distinct (grid_coords sz)"
  by (cases sz) (simp add: grid_coords_box distinct_box)

subsection \<open>Matrix algebra\<close>

lemma mat3_eq_iff: "a = b \<longleftrightarrow> col0 a = col0 b \<and> col1 a = col1 b \<and> col2 a = col2 b"
  by (cases a, cases b) simp

lemma determinant_mult: "determinant (a * b) = determinant a * determinant b"
  by (simp add: determinant_def times_mat3_def mat_vec_def vec3_sel_simps algebra_simps)

lemma transpose3_mult: "transpose3 (a * b) = transpose3 b * transpose3 a"
  by (simp add: transpose3_def times_mat3_def mat_vec_def vec3_sel_simps scaleV_def
      plus_vec3_def algebra_simps)

lemma transpose3_transpose3 [simp]: "transpose3 (transpose3 a) = a"
  by (simp add: transpose3_def mat3_eq_iff vec3_eq_iff)

lemma transpose3_diag [simp]:
  "transpose3 (dmat3 a 0 0 0 b 0 0 0 c) = dmat3 a 0 0 0 b 0 0 0 c"
  by (simp add: transpose3_def dmat3_def)

lemma determinant_one [simp]: "determinant 1 = 1"
  by (simp add: determinant_def one_mat3_def dmat3_scalar_def dmat3_def)

lemma diag_mult:
  "dmat3 a 0 0 0 b 0 0 0 c * dmat3 a' 0 0 0 b' 0 0 0 c' = dmat3 (a * a') 0 0 0 (b * b') 0 0 0 (c * c')"
  by (simp add: dmat3_def times_mat3_def mat_vec_def scaleV_def plus_vec3_def)

lemma diag_one: "dmat3 1 0 0 0 1 0 0 0 1 = 1"
  by (simp add: one_mat3_def dmat3_scalar_def)

lemma scalar_mat_mult_left: "dmat3_scalar x * m = scaleM x m"
  by (simp add: dmat3_scalar_def dmat3_def times_mat3_def mat_vec_def scaleM_def scaleV_def
      plus_vec3_def mat3_eq_iff vec3_eq_iff)

lemma scalar_mat_mult_right: "m * dmat3_scalar x = scaleM x m"
  by (simp add: dmat3_scalar_def dmat3_def times_mat3_def mat_vec_def scaleM_def scaleV_def
      plus_vec3_def mat3_eq_iff vec3_eq_iff zero_vec3_def)

lemma determinant_diag_minus:
  "determinant (dmat3 a 0 0 0 b 0 0 0 c - dmat3_scalar x) = (a - x) * (b - x) * (c - x)"
  by (simp add: determinant_def dmat3_scalar_def dmat3_def minus_mat3_def minus_vec3_def)

lemma singular_value_of_factorisation:
  assumes u: "transpose3 u * u = 1" and v: "v * transpose3 v = 1"
    and sv: "is_singular_value (u * dmat3 a 0 0 0 b 0 0 0 c * transpose3 v) sigma"
  shows "sigma = \<bar>a\<bar> \<or> sigma = \<bar>b\<bar> \<or> sigma = \<bar>c\<bar>"
proof -
  let ?D = "dmat3 a 0 0 0 b 0 0 0 c"
  let ?D2 = "dmat3 (a * a) 0 0 0 (b * b) 0 0 0 (c * c)"
  let ?S = "dmat3_scalar (sigma * sigma)"
  have ata: "transpose3 (u * ?D * transpose3 v) * (u * ?D * transpose3 v) = v * ?D2 * transpose3 v"
  proof -
    have "transpose3 (u * ?D * transpose3 v) * (u * ?D * transpose3 v)
          = v * ?D * (transpose3 u * u) * ?D * transpose3 v"
      by (simp add: transpose3_mult mult.assoc)
    also have "\<dots> = v * (?D * ?D) * transpose3 v"
      by (simp add: u mult.assoc)
    finally show ?thesis by (simp add: diag_mult)
  qed
  have c: "v * ?S = ?S * v"
    by (simp only: scalar_mat_mult_left scalar_mat_mult_right)
  have "v * ?S * transpose3 v = ?S * (v * transpose3 v)"
    by (simp only: c mult.assoc)
  also have "\<dots> = ?S"
    by (simp only: v mult_1_right)
  finally have s: "v * ?S * transpose3 v = ?S" .
  have "v * ?D2 * transpose3 v - ?S = v * (?D2 - ?S) * transpose3 v"
    by (simp only: right_diff_distrib left_diff_distrib s)
  then have "determinant (v * ?D2 * transpose3 v - ?S)
             = determinant v * determinant (transpose3 v) * determinant (?D2 - ?S)"
    by (simp add: determinant_mult)
  moreover have "determinant v * determinant (transpose3 v) = 1"
    using arg_cong [OF v, of determinant] by (simp add: determinant_mult)
  ultimately have "determinant (v * ?D2 * transpose3 v - ?S)
                   = (a * a - sigma * sigma) * (b * b - sigma * sigma) * (c * c - sigma * sigma)"
    by (simp add: determinant_diag_minus)
  with sv ata have z: "(a * a - sigma * sigma) * (b * b - sigma * sigma) * (c * c - sigma * sigma) = 0"
    and nn: "0 \<le> sigma"
    by (simp_all add: is_singular_value_def)
  have "x * x - sigma * sigma = 0 \<Longrightarrow> sigma = \<bar>x\<bar>" for x :: real
  proof -
    assume "x * x - sigma * sigma = 0"
    then have "sigma\<^sup>2 = x\<^sup>2" by (simp add: power2_eq_square)
    then have "\<bar>sigma\<bar> = \<bar>x\<bar>" by (simp add: power2_eq_iff abs_eq_iff)
    with nn show ?thesis by simp
  qed
  with z show ?thesis by auto
qed

subsection \<open>Step 7 and the clamp\<close>

lemma set_velocity_deform [simp]:
  "deformElastic (set_velocity n v pn) = deformElastic pn"
  "deformPlastic (set_velocity n v pn) = deformPlastic pn"
  by (simp_all add: set_velocity_def)

lemma handle_deform [simp]:
  "deformElastic (handleNodeCollisionVelocityUpdate pn) = deformElastic pn"
  "deformPlastic (handleNodeCollisionVelocityUpdate pn) = deformPlastic pn"
  by (simp_all add: handleNodeCollisionVelocityUpdate_def Let_def)

lemma step8_10_deform [simp]:
  "deformElastic (step8_10 s dt n pn) = deformElastic pn"
  "deformPlastic (step8_10 s dt n pn) = deformPlastic pn"
  by (simp_all add: step8_10_def Let_def split: prod.splits)

lemma clamp_bounds: "lo \<le> hi \<Longrightarrow> lo \<le> clamp x lo hi \<and> clamp x lo hi \<le> hi"
  by (simp add: clamp_def)

lemma clamp_nonneg: "0 \<le> x \<Longrightarrow> 0 \<le> hi \<Longrightarrow> 0 \<le> clamp x lo hi"
  by (simp add: clamp_def)

lemma step7_singular_values:
  assumes ok: "svd_ok svd (deformElastic_prime s dt n pn)"
    and lohi: "1 - criticalCompression s \<le> 1 + criticalStretch s"
    and hi: "0 \<le> 1 + criticalStretch s"
    and sv: "is_singular_value (deformElastic (step7 svd s dt n pn)) sigma"
  shows "1 - criticalCompression s \<le> sigma \<and> sigma \<le> 1 + criticalStretch s"
proof -
  obtain u e v where svd: "svd (deformElastic_prime s dt n pn) = (u, e, v)"
    by (cases "svd (deformElastic_prime s dt n pn)") auto
  let ?lo = "1 - criticalCompression s" and ?hi = "1 + criticalStretch s"
  let ?a = "clamp (vx e) ?lo ?hi" and ?b = "clamp (vy e) ?lo ?hi" and ?c = "clamp (vz e) ?lo ?hi"
  from ok svd have u: "transpose3 u * u = 1" and v: "v * transpose3 v = 1"
    and nn: "0 \<le> vx e" "0 \<le> vy e" "0 \<le> vz e"
    by (simp_all add: svd_ok_def orthogonal3_def)
  have fe: "deformElastic (step7 svd s dt n pn) = u * dmat3 ?a 0 0 0 ?b 0 0 0 ?c * transpose3 v"
    by (simp add: step7_def svd Let_def clampV_def)
  from singular_value_of_factorisation [OF u v sv [unfolded fe]]
  have "sigma = \<bar>?a\<bar> \<or> sigma = \<bar>?b\<bar> \<or> sigma = \<bar>?c\<bar>" .
  moreover have "0 \<le> ?a" "0 \<le> ?b" "0 \<le> ?c"
    using nn hi by (simp_all add: clamp_nonneg)
  ultimately have "sigma = ?a \<or> sigma = ?b \<or> sigma = ?c" by auto
  then show ?thesis
    using clamp_bounds [OF lohi, of "vx e"] clamp_bounds [OF lohi, of "vy e"]
      clamp_bounds [OF lohi, of "vz e"] by auto
qed

lemma step7_product:
  assumes svd: "svd (deformElastic_prime s dt n pn) = (u, e, v)"
    and u: "u * transpose3 u = 1" and v: "transpose3 v * v = 1"
    and nz: "clamp (vx e) (1 - criticalCompression s) (1 + criticalStretch s) \<noteq> 0"
            "clamp (vy e) (1 - criticalCompression s) (1 + criticalStretch s) \<noteq> 0"
            "clamp (vz e) (1 - criticalCompression s) (1 + criticalStretch s) \<noteq> 0"
  shows "deformElastic (step7 svd s dt n pn) * deformPlastic (step7 svd s dt n pn)
         = multiplier s dt n pn * deformElastic pn * deformPlastic pn"
proof -
  let ?lo = "1 - criticalCompression s" and ?hi = "1 + criticalStretch s"
  let ?a = "clamp (vx e) ?lo ?hi" and ?b = "clamp (vy e) ?lo ?hi" and ?c = "clamp (vz e) ?lo ?hi"
  let ?D = "dmat3 ?a 0 0 0 ?b 0 0 0 ?c"
  let ?Di = "dmat3 (1 / ?a) 0 0 0 (1 / ?b) 0 0 0 (1 / ?c)"
  let ?F = "multiplier s dt n pn * (deformElastic pn * deformPlastic pn)"
  have fe: "deformElastic (step7 svd s dt n pn) = u * ?D * transpose3 v"
    by (simp add: step7_def svd Let_def clampV_def)
  have fp: "deformPlastic (step7 svd s dt n pn) = v * ?Di * transpose3 u * ?F"
    by (simp add: step7_def svd Let_def clampV_def)
  have dd: "?D * ?Di = 1"
    using nz by (simp add: diag_mult diag_one)
  have "u * ?D * transpose3 v * (v * ?Di * transpose3 u * ?F)
        = u * (?D * ((transpose3 v * v) * (?Di * (transpose3 u * ?F))))"
    by (simp only: mult.assoc)
  also have "\<dots> = u * ((?D * ?Di) * (transpose3 u * ?F))"
    by (simp only: v mult_1_left mult.assoc)
  also have "\<dots> = (u * transpose3 u) * ?F"
    by (simp only: dd mult_1_left mult.assoc)
  also have "\<dots> = ?F"
    by (simp only: u mult_1_left)
  finally show ?thesis
    by (simp only: fe fp mult.assoc)
qed

subsection \<open>Loops over a window; step 3\<close>

lemma fold_upd_apply:
  "distinct cs \<Longrightarrow>
   fold (\<lambda>c g. g(c := F c (g c))) cs g c' = (if c' \<in> set cs then F c' (g c') else g c')"
  by (induction cs arbitrary: g) auto

lemma distinct_valid_window: "distinct (valid_window s pn)"
  by (simp add: valid_window_def window_def distinct_box)

lemma set_valid_window:
  "c \<in> set (valid_window s pn) \<longleftrightarrow> c \<in> set (window (h s) pn) \<and> isValidGridNode (size3 s) c"
  by (auto simp: valid_window_def)

lemma weight_cong:
  "position gn = position gn' \<Longrightarrow> weight hh gn pn = weight hh gn' pn"
  by (simp add: weight_def)

lemma nabla_weight_cong:
  "position gn = position gn' \<Longrightarrow> nabla_weight hh gn pn = nabla_weight hh gn' pn"
  by (simp add: nabla_weight_def)

lemma step3_particle_apply:
  "step3_particle svd s pn g c =
   (if c \<in> set (valid_window s pn)
    then (g c)\<lparr>force := force (g c) + mat_vec (unweightedForce svd s pn) (nabla_weight (h s) (g c) pn)\<rparr>
    else g c)"
  unfolding step3_particle_def Let_def
  by (rule fold_upd_apply [OF distinct_valid_window])

lemma step3_particles_position:
  "position (fold (step3_particle svd s) ps g c) = position (g c)"
  by (induction ps arbitrary: g) (simp_all add: step3_particle_apply)

lemma step3_particles_force:
  "force (fold (step3_particle svd s) ps g c) =
   force (g c) + sum_list (map (\<lambda>pn. if c \<in> set (valid_window s pn)
                                     then mat_vec (unweightedForce svd s pn) (nabla_weight (h s) (g c) pn)
                                     else 0) ps)"
proof (induction ps arbitrary: g)
  case Nil
  then show ?case by simp
next
  case (Cons pn ps)
  let ?g' = "step3_particle svd s pn g"
  have pos: "position (?g' c) = position (g c)"
    by (simp add: step3_particle_apply)
  have nw: "nabla_weight (h s) (?g' c) q = nabla_weight (h s) (g c) q" for q :: particlenode
    by (rule nabla_weight_cong [OF pos])
  have f1: "force (?g' c) = force (g c) + (if c \<in> set (valid_window s pn)
              then mat_vec (unweightedForce svd s pn) (nabla_weight (h s) (g c) pn) else 0)"
    by (simp add: step3_particle_apply)
  have "force (fold (step3_particle svd s) (pn # ps) g c)
        = force (fold (step3_particle svd s) ps ?g' c)"
    by simp
  also have "\<dots> = force (?g' c) + sum_list (map (\<lambda>pn. if c \<in> set (valid_window s pn)
                        then mat_vec (unweightedForce svd s pn) (nabla_weight (h s) (?g' c) pn)
                        else 0) ps)"
    by (rule Cons.IH)
  finally show ?case
    by (simp only: nw f1 list.map sum_list.Cons add.assoc)
qed

lemma scaleM_mult_left: "scaleM a m * b = scaleM a (m * b)"
  by (simp add: scaleM_def times_mat3_def mat_vec_def scaleV_def plus_vec3_def algebra_simps)

lemma dmat3_scalar_scaleM: "dmat3_scalar x = scaleM x 1"
  by (simp add: dmat3_scalar_def dmat3_def scaleM_def one_mat3_def scaleV_def)

lemma mat_vec_scaleM: "mat_vec (scaleM a m) v = scaleV a (mat_vec m v)"
  by (simp add: scaleM_def mat_vec_def scaleV_def plus_vec3_def algebra_simps)

lemma unweightedForce_stress:
  "unweightedForce svd s pn = scaleM (- volume0 pn) (stress_P svd s pn)"
  by (simp add: unweightedForce_def stress_P_def Let_def scaleM_mult_left dmat3_scalar_scaleM)

subsection \<open>The example states\<close>

lemma sqrt_25: "sqrt 25 = 5"
  by (rule real_sqrt_unique) simp_all

lemma outerProduct_zero [simp]: "outerProduct 0 r = 0"
  by (simp add: outerProduct_def zero_mat3_def scaleV_def zero_vec3_def)

lemma scaleM_zero [simp]: "scaleM x 0 = 0"
  by (simp add: scaleM_def zero_mat3_def scaleV_def zero_vec3_def)

lemma ex_grid_velocity [simp]: "velocity (ex_gridnode hh c) k = 0"
  by (simp add: velocity_def ex_gridnode_def)

lemma ex_solver_simps [simp]:
  "gridNodes (ex_solver sz ps) = ex_gridnode 1"
  "particleNodes (ex_solver sz ps) = ps"
  "size3 (ex_solver sz ps) = sz"
  "h (ex_solver sz ps) = 1"
  "criticalCompression (ex_solver sz ps) = 25 / 1000"
  "criticalStretch (ex_solver sz ps) = 75 / 10000"
  by (simp_all add: ex_solver_def)

lemma ex_particle_simps [simp]:
  "deformElastic (ex_particle p) = 1" "deformPlastic (ex_particle p) = 1"
  "position (ex_particle p) = p" "mass (ex_particle p) = 2" "volume0 (ex_particle p) = 1"
  by (simp_all add: ex_particle_def)

lemma svd_diag_one: "svd_diag 1 = (1, Vec3 1 1 1, 1)"
  by (simp add: svd_diag_def one_mat3_def dmat3_scalar_def dmat3_def)

lemma orthogonal3_one: "orthogonal3 1"
  by (simp add: orthogonal3_def transpose3_def one_mat3_def dmat3_scalar_def dmat3_def
      times_mat3_def mat_vec_def scaleV_def plus_vec3_def)

lemma transpose3_one [simp]: "transpose3 1 = 1"
  by (simp add: transpose3_def one_mat3_def dmat3_scalar_def dmat3_def)

subsection \<open>The weights of a window add up to one\<close>

lemma bspline_partition:
  assumes "0 \<le> f" "f < 1"
  shows "bspline (f + 1) + bspline f + bspline (f - 1) + bspline (f - 2) = 1"
proof (cases "f = 0")
  case True
  then show ?thesis by (simp add: bspline_def)
next
  case False
  with assms have a: "\<bar>f + 1\<bar> = f + 1" "\<bar>f\<bar> = f" "\<bar>f - 1\<bar> = 1 - f" "\<bar>f - 2\<bar> = 2 - f"
    and b: "\<not> f + 1 < 1" "f + 1 < 2" "1 - f < 1" "\<not> 2 - f < 1" "2 - f < 2"
    by simp_all
  show ?thesis
    unfolding bspline_def a using b assms
    by (simp add: power3_eq_cube power2_eq_square field_simps)
qed

lemma upto4: "[k - 1 .. k + 2] = [k - 1, k, k + 1, k + (2::int)]"
proof -
  have "[k - 1 .. k + 2] = (k - 1) # [k .. k + 2]"
    using upto_rec1 [of "k - 1" "k + 2"] by simp
  also have "[k .. k + 2] = k # [k + 1 .. k + 2]"
    using upto_rec1 [of k "k + 2"] by simp
  also have "[k + 1 .. k + 2] = (k + 1) # [k + 2 .. k + 2]"
    using upto_rec1 [of "k + 1" "k + 2"] by (simp add: add.commute)
  finally show ?thesis by simp
qed

lemma bspline_window_sum:
  "sum_list (map (\<lambda>x. bspline (q - real_of_int x)) [\<lfloor>q\<rfloor> - 1 .. \<lfloor>q\<rfloor> + 2]) = 1"
proof -
  let ?f = "q - real_of_int \<lfloor>q\<rfloor>"
  have f: "0 \<le> ?f" "?f < 1" by linarith+
  have "sum_list (map (\<lambda>x. bspline (q - real_of_int x)) [\<lfloor>q\<rfloor> - 1 .. \<lfloor>q\<rfloor> + 2])
        = bspline (?f + 1) + bspline ?f + bspline (?f - 1) + bspline (?f - 2)"
    by (simp add: upto4 algebra_simps)
  with bspline_partition [OF f] show ?thesis by simp
qed

lemma sum_list_box_product:
  "sum_list (map (\<lambda>(x, y, z). a x * b y * c z) (box (lx, ly, lz) (hx, hy, hz))) =
   sum_list (map a [lx .. hx]) * sum_list (map b [ly .. hy]) * sum_list (map c [lz .. hz] :: real list)"
proof -
  have inner: "sum_list (map ((\<lambda>(x, y, z). a x * b y * c z) \<circ> (\<lambda>z. (x, y, z))) zs)
               = a x * b y * sum_list (map c zs)" for x y zs
    by (simp add: o_def sum_list_const_mult)
  have mid: "sum_list (map (\<lambda>(x, y, z). a x * b y * c z)
                 (concat (map (\<lambda>y. map (\<lambda>z. (x, y, z)) zs) ys)))
             = a x * sum_list (map b ys) * sum_list (map c zs)" for x ys zs
    by (induction ys) (simp_all add: inner distrib_left distrib_right)
  have "sum_list (map (\<lambda>(x, y, z). a x * b y * c z)
          (concat (map (\<lambda>x. concat (map (\<lambda>y. map (\<lambda>z. (x, y, z)) zs) ys)) xs)))
        = sum_list (map a xs) * sum_list (map b ys) * sum_list (map c zs)" for xs ys zs
    by (induction xs) (simp_all add: mid distrib_right)
  then show ?thesis by (simp add: box_def)
qed

lemma trunc_int_window:
  assumes "0 \<le> \<lfloor>q\<rfloor> - 1"
  shows "trunc_int (q - 1) = \<lfloor>q\<rfloor> - 1" "trunc_int (q + 2) = \<lfloor>q\<rfloor> + 2"
proof -
  from assms have "1 \<le> q" by linarith
  then show "trunc_int (q - 1) = \<lfloor>q\<rfloor> - 1" "trunc_int (q + 2) = \<lfloor>q\<rfloor> + 2"
    by (simp_all add: trunc_int_def)
qed

lemma window_inside_box:
  assumes "window_inside s pn"
  shows "window (h s) pn =
         box (\<lfloor>vx (position pn) / h s\<rfloor> - 1, \<lfloor>vy (position pn) / h s\<rfloor> - 1, \<lfloor>vz (position pn) / h s\<rfloor> - 1)
             (\<lfloor>vx (position pn) / h s\<rfloor> + 2, \<lfloor>vy (position pn) / h s\<rfloor> + 2, \<lfloor>vz (position pn) / h s\<rfloor> + 2)"
proof -
  from assms have "0 \<le> \<lfloor>vx (position pn) / h s\<rfloor> - 1" "0 \<le> \<lfloor>vy (position pn) / h s\<rfloor> - 1"
    "0 \<le> \<lfloor>vz (position pn) / h s\<rfloor> - 1"
    by (simp_all add: window_inside_def Let_def isValidGridNode_def vec3_sel_simps split: prod.splits)
  then show ?thesis
    by (simp add: window_def gmin_def gmax_def ivec3_def vec3_sel_simps trunc_int_window)
qed

lemma window_inside_valid:
  assumes "window_inside s pn" "c \<in> set (window (h s) pn)"
  shows "isValidGridNode (size3 s) c"
proof -
  obtain x y z where c: "c = (x, y, z)" by (cases c) auto
  obtain nx ny nz where sz: "size3 s = (nx, ny, nz)" by (cases "size3 s") auto
  define kx where "kx = \<lfloor>vx (position pn) / h s\<rfloor>"
  define ky where "ky = \<lfloor>vy (position pn) / h s\<rfloor>"
  define kz where "kz = \<lfloor>vz (position pn) / h s\<rfloor>"
  from assms(2) have "c \<in> set (box (kx - 1, ky - 1, kz - 1) (kx + 2, ky + 2, kz + 2))"
    by (simp only: window_inside_box [OF assms(1)] kx_def ky_def kz_def)
  then have b: "kx - 1 \<le> x" "x \<le> kx + 2" "ky - 1 \<le> y" "y \<le> ky + 2" "kz - 1 \<le> z" "z \<le> kz + 2"
    by (simp_all add: c set_box)
  from assms(1) have "isValidGridNode (size3 s) (kx - 1, ky - 1, kz - 1)"
    "isValidGridNode (size3 s) (kx + 2, ky + 2, kz + 2)"
    by (simp_all add: window_inside_def Let_def vec3_sel_simps divV_def kx_def ky_def kz_def)
  then have "0 \<le> kx - 1" "kx + 2 < int nx" "0 \<le> ky - 1" "ky + 2 < int ny"
    "0 \<le> kz - 1" "kz + 2 < int nz"
    by (simp_all add: isValidGridNode_def sz)
  with b show ?thesis
    by (simp add: isValidGridNode_def sz c)
qed

lemma weight_at_grid:
  assumes "hh \<noteq> 0" "position gn = scaleV hh (coord_vec (x, y, z))"
  shows "weight hh gn pn =
         bspline (vx (position pn) / hh - real_of_int x)
         * bspline (vy (position pn) / hh - real_of_int y)
         * bspline (vz (position pn) / hh - real_of_int z)"
  using assms
  by (simp add: weight_def Let_def vec3_sel_simps coord_vec_def diff_divide_distrib)

lemma grid_positions_okD:
  "grid_positions_ok s \<Longrightarrow> isValidGridNode (size3 s) c \<Longrightarrow>
   position (gridNodes s c) = scaleV (h s) (coord_vec c)"
  by (cases c) (auto simp: grid_positions_ok_def list_all_iff set_grid_coords)

lemma window_weight_sum:
  assumes h0: "h s \<noteq> 0" and ok: "grid_positions_ok s" and inside: "window_inside s pn"
  shows "sum_list (map (\<lambda>c. weight (h s) (gridNodes s c) pn) (window (h s) pn)) = 1"
proof -
  let ?qx = "vx (position pn) / h s" and ?qy = "vy (position pn) / h s"
    and ?qz = "vz (position pn) / h s"
  have "sum_list (map (\<lambda>c. weight (h s) (gridNodes s c) pn) (window (h s) pn))
        = sum_list (map (\<lambda>(x, y, z). bspline (?qx - real_of_int x) * bspline (?qy - real_of_int y)
                                         * bspline (?qz - real_of_int z)) (window (h s) pn))"
  proof (rule arg_cong [where f = sum_list], rule map_cong [OF refl])
    fix c assume c: "c \<in> set (window (h s) pn)"
    obtain x y z where xyz: "c = (x, y, z)" by (cases c) auto
    from window_inside_valid [OF inside c] ok
    have "position (gridNodes s c) = scaleV (h s) (coord_vec c)"
      by (simp add: grid_positions_okD)
    then show "weight (h s) (gridNodes s c) pn =
               (case c of (x, y, z) \<Rightarrow> bspline (?qx - real_of_int x) * bspline (?qy - real_of_int y)
                                         * bspline (?qz - real_of_int z))"
      using weight_at_grid [OF h0, of "gridNodes s c" x y z pn] by (simp add: xyz)
  qed
  then show ?thesis
    by (simp only: window_inside_box [OF inside] sum_list_box_product bspline_window_sum mult_1)
qed

subsection \<open>Step 1\<close>

lemma rasterize_particle_apply:
  "rasterize_particle s n pn g c =
   (if c \<in> set (valid_window s pn) then rasterize_node s n pn (g c) else g c)"
  unfolding rasterize_particle_def
  by (rule fold_upd_apply [OF distinct_valid_window])

lemma rasterize_node_fields [simp]:
  "position (rasterize_node s n pn nd) = position nd"
  "mass (rasterize_node s n pn nd) = mass nd + mass pn * weight (h s) nd pn"
  by (simp_all add: rasterize_node_def Let_def)

lemma rasterize_particles_position:
  "position (fold (rasterize_particle s n) ps g c) = position (g c)"
  by (induction ps arbitrary: g) (simp_all add: rasterize_particle_apply)

lemma rasterize_particles_mass:
  "mass (fold (rasterize_particle s n) ps g c) =
   mass (g c) + sum_list (map (\<lambda>pn. if c \<in> set (valid_window s pn)
                                    then mass pn * weight (h s) (g c) pn else 0) ps)"
proof (induction ps arbitrary: g)
  case Nil
  then show ?case by simp
next
  case (Cons pn ps)
  let ?g' = "rasterize_particle s n pn g"
  have pos: "position (?g' c) = position (g c)"
    by (simp add: rasterize_particle_apply)
  have w: "weight (h s) (?g' c) q = weight (h s) (g c) q" for q :: particlenode
    by (rule weight_cong [OF pos])
  have m1: "mass (?g' c) = mass (g c) + (if c \<in> set (valid_window s pn)
              then mass pn * weight (h s) (g c) pn else 0)"
    by (simp add: rasterize_particle_apply)
  have "mass (fold (rasterize_particle s n) (pn # ps) g c)
        = mass (fold (rasterize_particle s n) ps ?g' c)"
    by simp
  also have "\<dots> = mass (?g' c) + sum_list (map (\<lambda>pn. if c \<in> set (valid_window s pn)
                        then mass pn * weight (h s) (?g' c) pn else 0) ps)"
    by (rule Cons.IH)
  finally show ?case
    by (simp only: w m1 list.map sum_list.Cons add.assoc)
qed

lemma step1_mass:
  assumes "isValidGridNode (size3 s) c"
  shows "mass (gridNodes (step1 s n) c) =
         sum_list (map (\<lambda>pn. if c \<in> set (window (h s) pn)
                              then mass pn * weight (h s) (gridNodes s c) pn else 0)
                       (particleNodes s))"
proof -
  have m0: "mass (step1_reset s n c) = 0"
    and p0: "position (step1_reset s n c) = position (gridNodes s c)"
    using assms by (simp_all add: step1_reset_def for_gridNodes_def)
  have w: "weight (h s) (step1_reset s n c) q = weight (h s) (gridNodes s c) q" for q :: particlenode
    by (rule weight_cong [OF p0])
  have "mass (gridNodes (step1 s n) c) = mass (step1_accumulate s n c)"
    using assms by (simp add: step1_def for_gridNodes_def step1_normalize_def)
  also have "\<dots> = mass (step1_reset s n c)
       + sum_list (map (\<lambda>pn. if c \<in> set (valid_window s pn)
                              then mass pn * weight (h s) (step1_reset s n c) pn else 0)
                       (particleNodes s))"
    by (simp only: step1_accumulate_def rasterize_particles_mass)
  finally show ?thesis
    using assms by (simp add: m0 w set_valid_window cong: if_cong)
qed

lemma sum_list_swap:
  "sum_list (map (\<lambda>c. sum_list (map (F c) ps)) cs)
   = sum_list (map (\<lambda>p. sum_list (map (\<lambda>c. F c p) cs)) ps :: real list)"
  by (induction ps) (simp_all add: sum_list_addf)

lemma sum_list_restrict:
  assumes "distinct cs" "distinct ws" "set ws \<subseteq> set cs"
  shows "sum_list (map (\<lambda>c. if c \<in> set ws then G c else 0) cs)
         = (sum_list (map G ws) :: 'a :: comm_monoid_add)"
proof -
  have "sum_list (map (\<lambda>c. if c \<in> set ws then G c else 0) cs)
        = sum (\<lambda>c. if c \<in> set ws then G c else 0) (set cs)"
    by (rule sum_list_distinct_conv_sum_set [OF assms(1)])
  also have "\<dots> = sum G (set cs \<inter> set ws)"
    by (simp add: sum.inter_restrict)
  also have "set cs \<inter> set ws = set ws"
    using assms(3) by auto
  also have "sum G (set ws) = sum_list (map G ws)"
    by (rule sum_list_distinct_conv_sum_set [OF assms(2), symmetric])
  finally show ?thesis .
qed

lemma SnowSolver_positions_ok: "grid_positions_ok (SnowSolver hh sz raw)"
  by (simp add: grid_positions_ok_def SnowSolver_def list_all_iff)

lemma ex_positions_ok: "grid_positions_ok (ex_solver sz ps)"
  by (simp add: grid_positions_ok_def list_all_iff ex_gridnode_def)

lemma ex1_valid: "isValidGridNode (size3 ex1) (1, 1, 1)"
  by (simp add: ex1_def isValidGridNode_def)

lemma step45_fields [simp]:
  "size3 (step45 s dt n) = size3 s"
  by (simp add: step45_def)

subsection \<open>Step 2\<close>

lemma density_fold_outside:
  assumes "c \<in> set cs" "gridNode s c = None"
  shows "fold (\<lambda>c acc.
             case acc of None \<Rightarrow> None
             | Some d \<Rightarrow>
                 (case gridNode s c of None \<Rightarrow> None
                  | Some nd \<Rightarrow> Some (d + density0 nd * weight (h s) nd pn))) cs acc = None"
  using assms
proof (induction cs arbitrary: acc)
  case Nil
  then show ?case by simp
next
  case (Cons a cs)
  have none: "fold (\<lambda>c acc.
             case acc of None \<Rightarrow> None
             | Some d \<Rightarrow>
                 (case gridNode s c of None \<Rightarrow> None
                  | Some nd \<Rightarrow> Some (d + density0 nd * weight (h s) nd pn))) xs None = None" for xs
    by (induction xs) simp_all
  show ?case
  proof (cases "a = c")
    case True
    with Cons.prems(2) show ?thesis
      by (simp add: none split: option.splits)
  next
    case False
    with Cons.prems have "c \<in> set cs" by simp
    from Cons.IH [OF this Cons.prems(2)] show ?thesis by simp
  qed
qed

lemma density_gather_outside:
  assumes "c \<in> set (window (h s) pn)" "\<not> isValidGridNode (size3 s) c"
  shows "particleNodeDensity0 s pn = None"
  unfolding particleNodeDensity0_def
  by (rule density_fold_outside [OF assms(1)]) (simp add: gridNode_def assms(2))

lemma ex2_window:
  "window (h ex2) (ex_particle (Vec3 (5 / 2) (5 / 2) (5 / 2))) = box (1, 1, 1) (4, 4, 4)"
  by (simp add: ex2_def window_def gmin_def gmax_def ivec3_def divV_def trunc_int_def
      minus_vec3_def plus_vec3_def)

subsection \<open>The implicit operator\<close>

lemma del_f_delta_t: "del_f dt svd (s\<lparr>delta_t := d\<rparr>) v = del_f dt svd s v"
  by (simp add: del_f_def unweightedDelForce_def del_deformElastic_def valid_window_def)

lemma implicit_ignores_delta_t:
  "implicitVelocityIntegrationMatrix svd (s\<lparr>delta_t := d\<rparr>) Av v
   = implicitVelocityIntegrationMatrix svd s Av v"
  by (simp add: implicitVelocityIntegrationMatrix_def implicit_body_def del_f_delta_t Let_def cong: if_cong)

lemma fold_add_sum_list:
  "fold (\<lambda>c acc. acc + G c) cs (a :: 'a :: ab_group_add) = a + sum_list (map G cs)"
  by (induction cs arbitrary: a) (simp_all add: add.assoc)

lemma sum_list_single:
  assumes "distinct cs" "c0 \<in> set cs" "\<And>c. c \<noteq> c0 \<Longrightarrow> G c = 0"
  shows "sum_list (map G cs) = (G c0 :: 'a :: ab_group_add)"
  using assms(1,2)
proof (induction cs)
  case Nil
  then show ?case by simp
next
  case (Cons a cs)
  have z: "c0 \<notin> set xs \<Longrightarrow> sum_list (map G xs) = 0" for xs
    by (induction xs) (auto simp: assms(3))
  show ?case
  proof (cases "a = c0")
    case True
    with Cons.prems show ?thesis by (simp add: z)
  next
    case False
    with Cons show ?thesis by (simp add: assms(3))
  qed
qed

lemma ex1_window:
  "window (h ex1) (ex_particle (Vec3 (3 / 2) (3 / 2) (3 / 2))) = box (0, 0, 0) (3, 3, 3)"
  by (simp add: ex1_def window_def gmin_def gmax_def ivec3_def divV_def trunc_int_def
      minus_vec3_def plus_vec3_def)

lemma ex1_in_valid_window:
  "(1, 1, 1) \<in> set (valid_window ex1 (ex_particle (Vec3 (3 / 2) (3 / 2) (3 / 2))))"
  by (simp add: set_valid_window ex1_window set_box ex1_valid)

lemma bspline_half: "bspline (1 / 2) = 23 / 48" "bspline' (1 / 2) = - (5 / 8)"
  by (simp_all add: bspline_def bspline'_def power3_eq_cube power2_eq_square)

lemma ex1_nabla_weight:
  "nabla_weight (h ex1) (gridNodes ex1 (1, 1, 1)) (ex_particle (Vec3 (3 / 2) (3 / 2) (3 / 2)))
   = Vec3 (- (2645 / 18432)) (- (2645 / 18432)) (- (2645 / 18432))"
  by (simp add: nabla_weight_def Let_def ex1_def ex_gridnode_def coord_vec_def divV_def
      scaleV_def minus_vec3_def bspline_half)

lemma outerProduct_ex_v_next:
  "c \<noteq> (1, 1, 1) \<Longrightarrow> outerProduct (ex_v_next c) r = 0"
  by (simp add: ex_v_next_def)

lemma ex1_del_deformElastic:
  "del_deformElastic dt ex1 ex_v_next (ex_particle (Vec3 (3 / 2) (3 / 2) (3 / 2)))
   = scaleM (dt * (- (2645 / 18432))) (Mat3 (Vec3 1 0 0) (Vec3 1 0 0) (Vec3 1 0 0))"
proof -
  let ?p = "ex_particle (Vec3 (3 / 2) (3 / 2) (3 / 2))"
  let ?G = "\<lambda>c. outerProduct (ex_v_next c) (nabla_weight (h ex1) (gridNodes ex1 c) ?p)"
  have "fold (\<lambda>c acc. acc + ?G c) (valid_window ex1 ?p) 0 = ?G (1, 1, 1)"
    by (simp add: fold_add_sum_list
        sum_list_single [OF distinct_valid_window ex1_in_valid_window, of ?G]
        outerProduct_ex_v_next)
  then show ?thesis
    by (simp add: del_deformElastic_def ex1_nabla_weight ex_v_next_def outerProduct_def
        scaleM_def scaleV_def)
qed

lemma polarDecompose_diag_one: "polarDecompose svd_diag 1 = (1, 1)"
  by (simp add: polarDecompose_def svd_diag_one diag_one)

lemma one_Mat3: "(1::mat3) = Mat3 (Vec3 1 0 0) (Vec3 0 1 0) (Vec3 0 0 1)"
  by (simp add: one_mat3_def dmat3_scalar_def dmat3_def)

lemma inverse3_one: "inverse3 1 = 1"
  by (simp add: inverse3_def one_Mat3 determinant_def el_def)

lemma ex1_del_polarRot:
  "del_polarRotDeformElastic svd_diag (ex_particle p)
     (scaleM a (Mat3 (Vec3 1 0 0) (Vec3 1 0 0) (Vec3 1 0 0)))
   = scaleM a (Mat3 (Vec3 0 (1 / 2) (1 / 2)) (Vec3 (- (1 / 2)) 0 0) (Vec3 (- (1 / 2)) 0 0))"
  by (simp add: del_polarRotDeformElastic_def polarDecompose_diag_one Let_def)
     (simp add: one_Mat3 dmat3_def inverse3_def determinant_def transpose3_def times_mat3_def
        mat_vec_def scaleM_def scaleV_def plus_vec3_def minus_mat3_def minus_vec3_def el_def)

lemma ex1_unweightedDelForce:
  "unweightedDelForce dt svd_diag ex1 ex_v_next (ex_particle (Vec3 (3 / 2) (3 / 2) (3 / 2)))
   = scaleM (dt * (- (2645 / 18432)))
       (Mat3 (Vec3 (- 3) 1 1) (Vec3 (- 3) (- 1) 0) (Vec3 (- 3) 0 (- 1)))"
  by (simp add: unweightedDelForce_def ex1_del_deformElastic ex1_del_polarRot Let_def
        inverse3_one)
     (simp add: ex1_def ex_solver_def one_Mat3 determinant_def transpose3_def
        del_cofactor_deformElastic_def ddot_def el_def dmat3_def scaleM_def scaleV_def
        times_mat3_def mat_vec_def plus_mat3_def minus_mat3_def plus_vec3_def minus_vec3_def)

lemma ex1_del_f:
  "del_f dt svd_diag ex1 ex_v_next (1, 1, 1) = Vec3 (- (9 * dt * (2645 / 18432)\<^sup>2)) 0 0"
proof -
  let ?p = "ex_particle (Vec3 (3 / 2) (3 / 2) (3 / 2))"
  have ps: "particleNodes ex1 = [?p]" by (simp add: ex1_def)
  have "del_f dt svd_diag ex1 ex_v_next (1, 1, 1)
        = 0 + mat_vec (unweightedDelForce dt svd_diag ex1 ex_v_next ?p)
                (nabla_weight (h ex1) (gridNodes ex1 (1, 1, 1)) ?p)"
    using fold_upd_apply [OF distinct_valid_window [of ex1 ?p],
        where F = "\<lambda>c x. x + mat_vec (unweightedDelForce dt svd_diag ex1 ex_v_next ?p)
                               (nabla_weight (h ex1) (gridNodes ex1 c) ?p)"
        and g = "\<lambda>c. 0" and c' = "(1, 1, 1)"]
    by (simp add: del_f_def ps Let_def ex1_in_valid_window)
  then show ?thesis
    by (simp add: ex1_unweightedDelForce ex1_nabla_weight mat_vec_def scaleM_def scaleV_def
        plus_vec3_def zero_vec3_def power2_eq_square)
qed

lemma ex1_implicit_body:
  "implicit_body dt beta svd_diag ex1 Av ex_v_next (1, 1, 1)
   = Vec3 (1 + 9 * beta * dt\<^sup>2 * (2645 / 18432)\<^sup>2) 0 0"
  by (simp add: implicit_body_def ex1_valid [simplified] ex1_del_f)
     (simp add: ex1_def ex_gridnode_def ex_v_next_def scaleV_def divV_def minus_vec3_def
        power2_eq_square isValidGridNode_def)

subsection \<open>A tick leaves the grid geometry alone\<close>

lemma handle_position [simp]:
  "position (handleNodeCollisionVelocityUpdate nd) = position nd"
  by (simp add: handleNodeCollisionVelocityUpdate_def Let_def)

lemma step1_grid:
  "position (gridNodes (step1 s n) c) = position (gridNodes s c)"
  "h (step1 s n) = h s" "size3 (step1 s n) = size3 s"
  by (simp_all add: step1_def for_gridNodes_def step1_normalize_def step1_accumulate_def
      rasterize_particles_position step1_reset_def)

lemma step2_grid:
  assumes "step2 s = Some s'"
  shows "position (gridNodes s' c) = position (gridNodes s c)" "h s' = h s" "size3 s' = size3 s"
  using assms
  by (auto simp: step2_def Let_def step2_density0_def for_gridNodes_def split: option.splits)

lemma step3_grid:
  "position (gridNodes (step3 svd s) c) = position (gridNodes s c)"
  "h (step3 svd s) = h s" "size3 (step3 svd s) = size3 s"
  by (simp_all add: step3_def step3_particles_position step3_gravity_def for_gridNodes_def)

lemma step45_grid:
  "position (gridNodes (step45 s dt n) c) = position (gridNodes s c)"
  "h (step45 s dt n) = h s"
  by (simp_all add: step45_def for_gridNodes_def step45_node_def Let_def)

lemma step6_grid:
  "position (gridNodes (step6 s n) c) = position (gridNodes s c)"
  "h (step6 s n) = h s" "size3 (step6 s n) = size3 s"
  by (simp_all add: step6_def Let_def)

lemma step7_10_grid:
  "gridNodes (step7_10 svd s dt n) = gridNodes s"
  "h (step7_10 svd s dt n) = h s" "size3 (step7_10 svd s dt n) = size3 s"
  by (simp_all add: step7_10_def)

lemma update_grid:
  assumes "update svd s dt n = Some s'"
  shows "position (gridNodes s' c) = position (gridNodes s c)" "h s' = h s" "size3 s' = size3 s"
proof -
  from assms obtain s2 where s2: "(if n = 0 then step2 (step1 s n) else Some (step1 s n)) = Some s2"
    and s': "s' = step7_10 svd (step6 (step45 (step3 svd s2) dt n) n) dt n"
    by (auto simp: update_def Let_def split: option.splits)
  from s2 have g2: "position (gridNodes s2 c) = position (gridNodes s c)" "h s2 = h s"
    "size3 s2 = size3 s"
    by (auto simp: step1_grid step2_grid split: if_splits)
  show "position (gridNodes s' c) = position (gridNodes s c)" "h s' = h s" "size3 s' = size3 s"
    by (simp_all add: s' step7_10_grid step6_grid step45_grid step3_grid g2)
qed

lemma update_positions_ok:
  assumes "update svd s dt n = Some s'" "grid_positions_ok s"
  shows "grid_positions_ok s'"
  using assms(2) by (simp add: grid_positions_ok_def update_grid [OF assms(1)])

subsection \<open>The window of the code and the window of the spec\<close>

lemma bspline_far: "2 \<le> \<bar>x\<bar> \<Longrightarrow> bspline x = 0" "2 \<le> \<bar>x\<bar> \<Longrightarrow> bspline' x = 0"
  by (simp_all add: bspline_def bspline'_def)

lemma nabla_weight_at_grid:
  assumes "hh \<noteq> 0" "position gn = scaleV hh (coord_vec (x, y, z))"
  shows "nabla_weight hh gn pn =
         scaleV (1 / hh)
           (Vec3 (bspline' (vx (position pn) / hh - real_of_int x)
                    * bspline (vy (position pn) / hh - real_of_int y)
                    * bspline (vz (position pn) / hh - real_of_int z))
                 (bspline (vx (position pn) / hh - real_of_int x)
                    * bspline' (vy (position pn) / hh - real_of_int y)
                    * bspline (vz (position pn) / hh - real_of_int z))
                 (bspline (vx (position pn) / hh - real_of_int x)
                    * bspline (vy (position pn) / hh - real_of_int y)
                    * bspline' (vz (position pn) / hh - real_of_int z)))"
  using assms
  by (simp add: nabla_weight_def Let_def vec3_sel_simps coord_vec_def diff_divide_distrib)

lemma trunc_int_lower: "\<lfloor>q\<rfloor> - 1 \<le> trunc_int (q - 1)"
  by (simp add: trunc_int_def; linarith?)

lemma trunc_int_lower_nonneg: "0 \<le> x \<Longrightarrow> \<lfloor>q\<rfloor> - 1 \<le> x \<Longrightarrow> trunc_int (q - 1) \<le> x"
  by (simp add: trunc_int_def; linarith?)

lemma trunc_int_upper: "\<lfloor>q\<rfloor> + 2 \<le> trunc_int (q + 2)"
  by (simp add: trunc_int_def; linarith?)

lemma trunc_int_upper_far:
  "x \<le> trunc_int (q + 2) \<Longrightarrow> x \<le> \<lfloor>q\<rfloor> + 2 \<or> 2 \<le> \<bar>q - real_of_int x\<bar>"
  by (simp add: trunc_int_def split: if_splits; linarith?)

lemma set_window:
  "(x, y, z) \<in> set (window hh pn) \<longleftrightarrow>
   trunc_int (vx (position pn) / hh - 1) \<le> x \<and> x \<le> trunc_int (vx (position pn) / hh + 2) \<and>
   trunc_int (vy (position pn) / hh - 1) \<le> y \<and> y \<le> trunc_int (vy (position pn) / hh + 2) \<and>
   trunc_int (vz (position pn) / hh - 1) \<le> z \<and> z \<le> trunc_int (vz (position pn) / hh + 2)"
  by (simp add: window_def gmin_def gmax_def ivec3_def set_box vec3_sel_simps)

lemma spec_window_in_window:
  assumes "isValidGridNode sz c" "spec_window hh pn c"
  shows "c \<in> set (window hh pn)"
proof -
  obtain x y z where c: "c = (x, y, z)" by (cases c) auto
  obtain nx ny nz where sz: "sz = (nx, ny, nz)" by (cases sz) auto
  from assms(1) have nn: "0 \<le> x" "0 \<le> y" "0 \<le> z"
    by (simp_all add: c sz isValidGridNode_def)
  from assms(2) have sp:
    "\<lfloor>vx (position pn) / hh\<rfloor> - 1 \<le> x" "x \<le> \<lfloor>vx (position pn) / hh\<rfloor> + 2"
    "\<lfloor>vy (position pn) / hh\<rfloor> - 1 \<le> y" "y \<le> \<lfloor>vy (position pn) / hh\<rfloor> + 2"
    "\<lfloor>vz (position pn) / hh\<rfloor> - 1 \<le> z" "z \<le> \<lfloor>vz (position pn) / hh\<rfloor> + 2"
    by (simp_all add: c spec_window_def)
  show ?thesis
    unfolding c set_window
    using trunc_int_lower_nonneg [OF nn(1) sp(1)] trunc_int_lower_nonneg [OF nn(2) sp(3)]
      trunc_int_lower_nonneg [OF nn(3) sp(5)]
      trunc_int_upper [of "vx (position pn) / hh"] trunc_int_upper [of "vy (position pn) / hh"]
      trunc_int_upper [of "vz (position pn) / hh"] sp(2,4,6)
    by linarith
qed

lemma window_not_spec_far:
  assumes "(x, y, z) \<in> set (window hh pn)" "\<not> spec_window hh pn (x, y, z)"
  shows "2 \<le> \<bar>vx (position pn) / hh - real_of_int x\<bar> \<or>
         2 \<le> \<bar>vy (position pn) / hh - real_of_int y\<bar> \<or>
         2 \<le> \<bar>vz (position pn) / hh - real_of_int z\<bar>"
proof -
  from assms(1) have w:
    "trunc_int (vx (position pn) / hh - 1) \<le> x" "x \<le> trunc_int (vx (position pn) / hh + 2)"
    "trunc_int (vy (position pn) / hh - 1) \<le> y" "y \<le> trunc_int (vy (position pn) / hh + 2)"
    "trunc_int (vz (position pn) / hh - 1) \<le> z" "z \<le> trunc_int (vz (position pn) / hh + 2)"
    by (simp_all add: set_window)
  have lo: "\<lfloor>vx (position pn) / hh\<rfloor> - 1 \<le> x" "\<lfloor>vy (position pn) / hh\<rfloor> - 1 \<le> y"
    "\<lfloor>vz (position pn) / hh\<rfloor> - 1 \<le> z"
    using w(1,3,5) trunc_int_lower [of "vx (position pn) / hh"]
      trunc_int_lower [of "vy (position pn) / hh"] trunc_int_lower [of "vz (position pn) / hh"]
    by linarith+
  from assms(2) lo have "\<not> x \<le> \<lfloor>vx (position pn) / hh\<rfloor> + 2 \<or>
    \<not> y \<le> \<lfloor>vy (position pn) / hh\<rfloor> + 2 \<or> \<not> z \<le> \<lfloor>vz (position pn) / hh\<rfloor> + 2"
    by (simp add: spec_window_def)
  with trunc_int_upper_far [OF w(2)] trunc_int_upper_far [OF w(4)] trunc_int_upper_far [OF w(6)]
  show ?thesis by blast
qed

lemma far_weights_zero:
  assumes "hh \<noteq> 0" "position gn = scaleV hh (coord_vec (x, y, z))"
    and "2 \<le> \<bar>vx (position pn) / hh - real_of_int x\<bar> \<or>
         2 \<le> \<bar>vy (position pn) / hh - real_of_int y\<bar> \<or>
         2 \<le> \<bar>vz (position pn) / hh - real_of_int z\<bar>"
  shows "weight hh gn pn = 0" "nabla_weight hh gn pn = 0"
  using assms(3)
  by (auto simp: weight_at_grid [OF assms(1,2)] nabla_weight_at_grid [OF assms(1,2)]
      bspline_far scaleV_def zero_vec3_def)

lemma window_if_spec_window:
  assumes "isValidGridNode sz c" "hh \<noteq> 0" "position gn = scaleV hh (coord_vec c)"
    and "weight hh gn pn = 0 \<Longrightarrow> nabla_weight hh gn pn = 0 \<Longrightarrow> G = Z"
  shows "(if c \<in> set (window hh pn) then G else Z) = (if spec_window hh pn c then G else Z)"
proof (cases "spec_window hh pn c")
  case True
  from spec_window_in_window [OF assms(1) True] True show ?thesis by simp
next
  case False
  show ?thesis
  proof (cases "c \<in> set (window hh pn)")
    case True
    obtain x y z where c: "c = (x, y, z)" by (cases c) auto
    from window_not_spec_far [OF True [unfolded c] False [unfolded c]]
    have "weight hh gn pn = 0" "nabla_weight hh gn pn = 0"
      by (rule far_weights_zero [OF assms(2) assms(3) [unfolded c]])+
    with assms(4) True False show ?thesis by simp
  next
    case False
    with \<open>\<not> spec_window hh pn c\<close> show ?thesis by simp
  qed
qed

lemma scaleV_zero_left [simp]: "scaleV 0 v = 0"
  by (simp add: scaleV_def zero_vec3_def)

lemma scaleV_zero_right [simp]: "scaleV a 0 = 0"
  by (simp add: scaleV_def zero_vec3_def)

lemma mat_vec_zero [simp]: "mat_vec m 0 = 0"
  by (simp add: mat_vec_def vec3_sel_simps)

lemma outerProduct_zero_right [simp]: "outerProduct v 0 = 0"
  by (simp add: outerProduct_def zero_mat3_def vec3_sel_simps)

subsection \<open>Step 1: the accumulated mass and momentum of a node\<close>

lemma rasterize_node_velocity [simp]:
  "velocity (rasterize_node s n pn nd) n
   = velocity nd n + scaleV (mass pn * weight (h s) nd pn) (velocity pn n)"
  by (simp add: rasterize_node_def Let_def)

lemma rasterize_particles_velocity:
  "velocity (fold (rasterize_particle s n) ps g c) n =
   velocity (g c) n + sum_list (map (\<lambda>pn. if c \<in> set (valid_window s pn)
        then scaleV (mass pn * weight (h s) (g c) pn) (velocity pn n) else 0) ps)"
proof (induction ps arbitrary: g)
  case Nil
  then show ?case by simp
next
  case (Cons pn ps)
  let ?g' = "rasterize_particle s n pn g"
  have pos: "position (?g' c) = position (g c)"
    by (simp add: rasterize_particle_apply)
  have w: "weight (h s) (?g' c) q = weight (h s) (g c) q" for q :: particlenode
    by (rule weight_cong [OF pos])
  have m1: "velocity (?g' c) n = velocity (g c) n + (if c \<in> set (valid_window s pn)
              then scaleV (mass pn * weight (h s) (g c) pn) (velocity pn n) else 0)"
    by (simp add: rasterize_particle_apply)
  have "velocity (fold (rasterize_particle s n) (pn # ps) g c) n
        = velocity (fold (rasterize_particle s n) ps ?g' c) n"
    by simp
  also have "\<dots> = velocity (?g' c) n + sum_list (map (\<lambda>pn. if c \<in> set (valid_window s pn)
        then scaleV (mass pn * weight (h s) (?g' c) pn) (velocity pn n) else 0) ps)"
    by (rule Cons.IH)
  finally show ?case
    by (simp only: w m1 list.map sum_list.Cons add.assoc)
qed

lemma step1_accumulate_node:
  assumes valid: "isValidGridNode (size3 s) c" and h0: "h s \<noteq> 0" and ok: "grid_positions_ok s"
  shows "mass (step1_accumulate s n c) =
           sum_list (map (\<lambda>pn. if spec_window (h s) pn c
                                then mass pn * weight (h s) (gridNodes s c) pn else 0)
                         (particleNodes s))"
    and "velocity (step1_accumulate s n c) n =
           sum_list (map (\<lambda>pn. if spec_window (h s) pn c
                                then scaleV (mass pn * weight (h s) (gridNodes s c) pn) (velocity pn n)
                                else 0)
                         (particleNodes s))"
proof -
  have pos: "position (gridNodes s c) = scaleV (h s) (coord_vec c)"
    by (rule grid_positions_okD [OF ok valid])
  have m0: "mass (step1_reset s n c) = 0" and v0: "velocity (step1_reset s n c) n = 0"
    and p0: "position (step1_reset s n c) = position (gridNodes s c)"
    using valid by (simp_all add: step1_reset_def for_gridNodes_def)
  have w: "weight (h s) (step1_reset s n c) q = weight (h s) (gridNodes s c) q" for q :: particlenode
    by (rule weight_cong [OF p0])
  have "mass (step1_accumulate s n c)
        = sum_list (map (\<lambda>pn. if c \<in> set (window (h s) pn)
                               then mass pn * weight (h s) (gridNodes s c) pn else 0)
                        (particleNodes s))"
    using valid
    by (simp add: step1_accumulate_def rasterize_particles_mass m0 w set_valid_window
        cong: if_cong)
  also have "\<dots> = sum_list (map (\<lambda>pn. if spec_window (h s) pn c
                               then mass pn * weight (h s) (gridNodes s c) pn else 0)
                        (particleNodes s))"
    by (rule arg_cong [where f = sum_list], rule map_cong [OF refl],
        rule window_if_spec_window [OF valid h0 pos]) simp
  finally show "mass (step1_accumulate s n c) =
           sum_list (map (\<lambda>pn. if spec_window (h s) pn c
                                then mass pn * weight (h s) (gridNodes s c) pn else 0)
                         (particleNodes s))" .
  have "velocity (step1_accumulate s n c) n
        = sum_list (map (\<lambda>pn. if c \<in> set (window (h s) pn)
                then scaleV (mass pn * weight (h s) (gridNodes s c) pn) (velocity pn n) else 0)
                        (particleNodes s))"
    using valid
    by (simp add: step1_accumulate_def rasterize_particles_velocity v0 w set_valid_window
        cong: if_cong)
  also have "\<dots> = sum_list (map (\<lambda>pn. if spec_window (h s) pn c
                then scaleV (mass pn * weight (h s) (gridNodes s c) pn) (velocity pn n) else 0)
                        (particleNodes s))"
    by (rule arg_cong [where f = sum_list], rule map_cong [OF refl],
        rule window_if_spec_window [OF valid h0 pos]) simp
  finally show "velocity (step1_accumulate s n c) n =
           sum_list (map (\<lambda>pn. if spec_window (h s) pn c
                                then scaleV (mass pn * weight (h s) (gridNodes s c) pn) (velocity pn n)
                                else 0)
                         (particleNodes s))" .
qed

lemma step1_node:
  assumes "isValidGridNode (size3 s) c"
  shows "mass (gridNodes (step1 s n) c) = mass (step1_accumulate s n c)"
    and "velocity (gridNodes (step1 s n) c) n =
         (if glm_length (velocity (step1_accumulate s n c) n) > 0 \<and> mass (step1_accumulate s n c) > 0
          then divV (velocity (step1_accumulate s n c) n) (mass (step1_accumulate s n c)) else 0)"
  using assms by (simp_all add: step1_def for_gridNodes_def step1_normalize_def)

subsection \<open>The state in motion\<close>

lemma ex3_simps [simp]:
  "gridNodes (ex3 v) = ex3_gridnode" "particleNodes (ex3 v) = [ex3_particle v]"
  "size3 (ex3 v) = (6, 6, 6)" "h (ex3 v) = 1"
  "criticalCompression (ex3 v) = 25 / 1000" "criticalStretch (ex3 v) = 75 / 10000"
  "mu0 (ex3 v) = 1" "lambda0 (ex3 v) = 1" "hardeningCoefficient (ex3 v) = 10"
  by (simp_all add: ex3_def ex_solver_def)

lemma ex3_particle_simps [simp]:
  "position (ex3_particle v) = Vec3 2 2 2" "mass (ex3_particle v) = 2"
  "volume0 (ex3_particle v) = 1" "velocity (ex3_particle v) 0 = v"
  "deformElastic (ex3_particle v) = dmat3 1 0 0 0 1 0 0 0 (1 / 2)"
  "deformPlastic (ex3_particle v) = dmat3 2 0 0 0 (1 / 2) 0 0 0 1"
  by (simp_all add: ex3_particle_def velocity_def)

lemma ex3_gridnode_simps [simp]:
  "position (ex3_gridnode c) = scaleV 1 (coord_vec c)" "mass (ex3_gridnode c) = 1"
  "velocity (ex3_gridnode c) (Suc 0) = (if c = (1, 2, 2) then Vec3 (- (9 / 2)) 0 0 else 0)"
  by (simp_all add: ex3_gridnode_def ex_gridnode_def velocity_def)

lemma ex3_valid: "isValidGridNode (size3 (ex3 v)) (1, 2, 2)"
  by (simp add: isValidGridNode_def)

lemma ex3_h: "h (ex3 v) \<noteq> 0"
  by simp

lemma ex3_positions_ok: "grid_positions_ok (ex3 v)"
  by (simp add: grid_positions_ok_def list_all_iff)

lemma ex3_spec_window: "spec_window 1 (ex3_particle v) (1, 2, 2)"
  by (simp add: spec_window_def)

lemma bspline_values:
  "bspline 0 = 2 / 3" "bspline 1 = 1 / 6" "bspline' 0 = 0" "bspline' 1 = - (1 / 2)"
  by (simp_all add: bspline_def bspline'_def)

lemma ex3_weight: "weight 1 (ex3_gridnode (1, 2, 2)) (ex3_particle v) = 2 / 27"
  by (simp add: weight_def Let_def coord_vec_def divV_def scaleV_def minus_vec3_def
      bspline_values)

lemma ex3_nabla_weight:
  "nabla_weight 1 (ex3_gridnode (1, 2, 2)) (ex3_particle v) = Vec3 (- (2 / 9)) 0 0"
  by (simp add: nabla_weight_def Let_def coord_vec_def divV_def scaleV_def minus_vec3_def
      bspline_values)

lemma flsq_pos_iff: "0 < flsq x \<longleftrightarrow> 1 / 2 ^ 1075 < x * x"
  by (auto simp: flsq_def not_le intro: less_trans [of 0 "1 / 2 ^ 1075"])

lemma flsq_nonneg: "0 \<le> flsq x"
  by (simp add: flsq_def)

lemma glm_length_pos_iff:
  "0 < glm_length v \<longleftrightarrow>
   1 / 2 ^ 1075 < vx v * vx v \<or> 1 / 2 ^ 1075 < vy v * vy v \<or> 1 / 2 ^ 1075 < vz v * vz v"
proof -
  have "0 < flsq (vx v) + flsq (vy v) + flsq (vz v)
        \<longleftrightarrow> 0 < flsq (vx v) \<or> 0 < flsq (vy v) \<or> 0 < flsq (vz v)"
    using flsq_nonneg [of "vx v"] flsq_nonneg [of "vy v"] flsq_nonneg [of "vz v"] by linarith
  then show ?thesis
    by (simp add: glm_length_def flsq_pos_iff)
qed

subsection \<open>Step 3 on the window of the spec\<close>

lemma svd_diag_dmat3: "svd_diag (dmat3 a 0 0 0 b 0 0 0 c) = (1, Vec3 a b c, 1)"
  by (simp add: svd_diag_def dmat3_def)

lemma determinant_dmat3_diag [simp]: "determinant (dmat3 a 0 0 0 b 0 0 0 c) = a * b * c"
  by (simp add: determinant_def dmat3_def)

lemma ex3_stress:
  "stress_P svd_diag (ex3 v) (ex3_particle v) = dmat3 (- (1 / 4)) 0 0 0 (- (1 / 4)) 0 0 0 (- (3 / 4))"
  by (simp add: stress_P_def Let_def polarRot_def svd_diag_dmat3)
     (simp add: one_Mat3 dmat3_def transpose3_def times_mat3_def mat_vec_def scaleM_def
        scaleV_def plus_mat3_def minus_mat3_def plus_vec3_def minus_vec3_def zero_vec3_def)

subsection \<open>The velocity gradient of step 7\<close>

lemma nabla_v_sum:
  assumes h0: "h s \<noteq> 0" and ok: "grid_positions_ok s"
  shows "nabla_v s n pn =
         sum_list (map (\<lambda>c. if spec_window (h s) pn c
                              then outerProduct (velocity (gridNodes s c) (n + 1))
                                                (nabla_weight (h s) (gridNodes s c) pn)
                              else 0)
                       (grid_coords (size3 s)))"
proof -
  let ?G = "\<lambda>c. outerProduct (velocity (gridNodes s c) (n + 1))
                               (nabla_weight (h s) (gridNodes s c) pn)"
  have sub: "set (valid_window s pn) \<subseteq> set (grid_coords (size3 s))"
    by (auto simp: set_valid_window set_grid_coords)
  have "nabla_v s n pn = sum_list (map ?G (valid_window s pn))"
    by (simp add: nabla_v_def fold_add_sum_list)
  also have "\<dots> = sum_list (map (\<lambda>c. if c \<in> set (valid_window s pn) then ?G c else 0)
                              (grid_coords (size3 s)))"
    by (rule sum_list_restrict [OF distinct_grid_coords distinct_valid_window sub, symmetric])
  also have "\<dots> = sum_list (map (\<lambda>c. if spec_window (h s) pn c then ?G c else 0)
                              (grid_coords (size3 s)))"
  proof (rule arg_cong [where f = sum_list], rule map_cong [OF refl])
    fix c assume "c \<in> set (grid_coords (size3 s))"
    then have valid: "isValidGridNode (size3 s) c" by (simp add: set_grid_coords)
    have pos: "position (gridNodes s c) = scaleV (h s) (coord_vec c)"
      by (rule grid_positions_okD [OF ok valid])
    have "(if c \<in> set (window (h s) pn) then ?G c else 0)
          = (if spec_window (h s) pn c then ?G c else 0)"
      by (rule window_if_spec_window [OF valid h0 pos]) simp
    with valid show "(if c \<in> set (valid_window s pn) then ?G c else 0)
          = (if spec_window (h s) pn c then ?G c else 0)"
      by (simp add: set_valid_window)
  qed
  finally show ?thesis .
qed

lemma ex3_in_grid: "(1, 2, 2) \<in> set (grid_coords (size3 (ex3 v)))"
  by (simp add: set_grid_coords isValidGridNode_def)

lemma ex3_grad_v:
  "sum_list (map (\<lambda>c. if spec_window (h (ex3 v)) (ex3_particle v) c
                       then outerProduct (velocity (gridNodes (ex3 v) c) (0 + 1))
                              (nabla_weight (h (ex3 v)) (gridNodes (ex3 v) c) (ex3_particle v))
                       else 0)
                 (grid_coords (size3 (ex3 v))))
   = dmat3 1 0 0 0 0 0 0 0 0"
proof -
  let ?G = "\<lambda>c. if spec_window (h (ex3 v)) (ex3_particle v) c
                       then outerProduct (velocity (gridNodes (ex3 v) c) (0 + 1))
                              (nabla_weight (h (ex3 v)) (gridNodes (ex3 v) c) (ex3_particle v))
                       else 0"
  have z: "c \<noteq> (1, 2, 2) \<Longrightarrow> ?G c = 0" for c
    by simp
  have "sum_list (map ?G (grid_coords (size3 (ex3 v)))) = ?G (1, 2, 2)"
    by (rule sum_list_single [OF distinct_grid_coords ex3_in_grid z])
  also have "\<dots> = dmat3 1 0 0 0 0 0 0 0 0"
    by (simp add: ex3_spec_window ex3_nabla_weight outerProduct_def scaleV_def dmat3_def
        zero_vec3_def)
  finally show ?thesis .
qed

lemma ex3_nabla_v: "nabla_v (ex3 v) 0 (ex3_particle v) = dmat3 1 0 0 0 0 0 0 0 0"
  by (simp only: nabla_v_sum [OF ex3_h ex3_positions_ok] ex3_grad_v)

lemma ex3_particle_0: "particleNodes (ex3 v) ! 0 = ex3_particle v"
  by simp

lemma ex3_multiplier:
  "(1 + scaleM 1 (dmat3 1 0 0 0 0 0 0 0 0)) * dmat3 1 0 0 0 1 0 0 0 (1 / 2)
   = dmat3 2 0 0 0 1 0 0 0 (1 / 2)"
  by (simp add: one_Mat3 dmat3_def times_mat3_def mat_vec_def scaleM_def scaleV_def
      plus_mat3_def plus_vec3_def zero_vec3_def)

lemma ex3_deformElastic_prime:
  "deformElastic_prime (ex3 v) 1 0 (ex3_particle v) = dmat3 2 0 0 0 1 0 0 0 (1 / 2)"
  by (simp add: deformElastic_prime_def multiplier_def ex3_nabla_v ex3_multiplier)

lemma svd_ok_diag:
  "0 \<le> a \<Longrightarrow> 0 \<le> b \<Longrightarrow> 0 \<le> c \<Longrightarrow> svd_ok svd_diag (dmat3 a 0 0 0 b 0 0 0 c)"
  by (simp add: svd_ok_def svd_diag_dmat3 orthogonal3_one)

lemma ex3_step7:
  "deformElastic (step7 svd_diag (ex3 v) 1 0 (ex3_particle v))
     = dmat3 (403 / 400) 0 0 0 1 0 0 0 (39 / 40)"
  "deformPlastic (step7 svd_diag (ex3 v) 1 0 (ex3_particle v))
     = dmat3 (1600 / 403) 0 0 0 (1 / 2) 0 0 0 (20 / 39)"
  by (simp_all add: step7_def Let_def ex3_deformElastic_prime svd_diag_dmat3 clampV_def
        clamp_def multiplier_def ex3_nabla_v)
     (simp_all add: one_Mat3 dmat3_def times_mat3_def mat_vec_def scaleM_def scaleV_def
        plus_mat3_def plus_vec3_def zero_vec3_def transpose3_def)

lemma is_singular_value_diag:
  "is_singular_value (dmat3 a 0 0 0 b 0 0 0 c) sigma \<longleftrightarrow>
   0 \<le> sigma \<and> (a * a - sigma * sigma) * (b * b - sigma * sigma) * (c * c - sigma * sigma) = 0"
  by (simp add: is_singular_value_def diag_mult determinant_diag_minus)

section \<open>The claims\<close>

text \<open>
  C1. After step 7 every singular value of a particle's \<open>deformElastic\<close> lies in
  \<open>[1 - \<theta>\<^sub>c, 1 + \<theta>\<^sub>s]\<close>. The interval holds a non-negative number (\<open>1 - \<theta>\<^sub>c \<le> 1 + \<theta>\<^sub>s\<close> and
  \<open>0 \<le> 1 + \<theta>\<^sub>s\<close>, as for the non-negative \<open>\<theta>\<^sub>c\<close> and \<open>\<theta>\<^sub>s\<close> of the material model), and the
  decomposition returns orthogonal factors and non-negative singular values on the
  trial matrices of the particles.
\<close>

theorem plastic_clamp_singular_values:
  assumes ok: "\<forall>pn \<in> set (particleNodes s). svd_ok svd (deformElastic_prime s dt n pn)"
    and lohi: "1 - criticalCompression s \<le> 1 + criticalStretch s"
    and hi: "0 \<le> 1 + criticalStretch s"
    and mem: "pn' \<in> set (particleNodes (step7_10 svd s dt n))"
    and sv: "is_singular_value (deformElastic pn') sigma"
  shows "1 - criticalCompression s \<le> sigma \<and> sigma \<le> 1 + criticalStretch s"
proof -
  from mem obtain pn where pn: "pn \<in> set (particleNodes s)"
    and pn': "pn' = step8_10 s dt n (step7 svd s dt n pn)"
    by (auto simp: step7_10_def)
  from sv have "is_singular_value (deformElastic (step7 svd s dt n pn)) sigma"
    by (simp add: pn')
  moreover from ok pn have "svd_ok svd (deformElastic_prime s dt n pn)" by blast
  ultimately show ?thesis
    using lohi hi by (rule step7_singular_values [rotated 3])
qed

theorem plastic_clamp_witness:
  "svd_ok svd_diag (deformElastic_prime (ex3 0) 1 0 (particleNodes (ex3 0) ! 0)) \<and>
   1 - criticalCompression (ex3 0) \<le> 1 + criticalStretch (ex3 0) \<and>
   0 \<le> 1 + criticalStretch (ex3 0) \<and>
   deformElastic_prime (ex3 0) 1 0 (particleNodes (ex3 0) ! 0) = dmat3 2 0 0 0 1 0 0 0 (1 / 2) \<and>
   deformElastic (particleNodes (step7_10 svd_diag (ex3 0) 1 0) ! 0)
     = dmat3 (403 / 400) 0 0 0 1 0 0 0 (39 / 40) \<and>
   is_singular_value (deformElastic (particleNodes (step7_10 svd_diag (ex3 0) 1 0) ! 0)) (403 / 400) \<and>
   is_singular_value (deformElastic (particleNodes (step7_10 svd_diag (ex3 0) 1 0) ! 0)) (39 / 40) \<and>
   1 - criticalCompression (ex3 0) \<le> 39 / 40 \<and> 403 / 400 \<le> 1 + criticalStretch (ex3 0)"
proof -
  let ?s = "ex3 0"
  let ?p' = "particleNodes (step7_10 svd_diag ?s 1 0) ! 0"
  have ok: "\<forall>pn \<in> set (particleNodes ?s). svd_ok svd_diag (deformElastic_prime ?s 1 0 pn)"
    by (simp add: ex3_deformElastic_prime svd_ok_diag)
  have th: "1 - criticalCompression ?s \<le> 1 + criticalStretch ?s" "0 \<le> 1 + criticalStretch ?s"
    by simp_all
  have mem: "?p' \<in> set (particleNodes (step7_10 svd_diag ?s 1 0))"
    by (simp add: step7_10_def)
  have fe: "deformElastic ?p' = dmat3 (403 / 400) 0 0 0 1 0 0 0 (39 / 40)"
    by (simp add: step7_10_def ex3_step7)
  have sv1: "is_singular_value (deformElastic ?p') (403 / 400)"
    and sv2: "is_singular_value (deformElastic ?p') (39 / 40)"
    by (simp_all add: fe is_singular_value_diag)
  from plastic_clamp_singular_values [OF ok th mem sv1]
    plastic_clamp_singular_values [OF ok th mem sv2] ok th fe sv1 sv2
  show ?thesis
    by (simp add: ex3_deformElastic_prime)
qed

text \<open>
  C2 fails on the code. The density gather of step 2 has no \<open>isValidGridNode\<close> guard:
  for a particle at \<open>(2.5, 2.5, 2.5)\<close> on a grid of 4 by 4 by 4 nodes with \<open>h = 1\<close> the
  window reaches the coordinate \<open>(1, 1, 4)\<close>, which is not valid; the guarded loops skip
  it, the gather reads the node there, outside the node vector.
\<close>

theorem density_gather_reads_outside_grid:
  "(1, 1, 4) \<in> set (window (h ex2) (particleNodes ex2 ! 0)) \<and>
   \<not> isValidGridNode (size3 ex2) (1, 1, 4) \<and>
   (1, 1, 4) \<notin> set (valid_window ex2 (particleNodes ex2 ! 0)) \<and>
   gridNode ex2 (1, 1, 4) = None \<and>
   particleNodeDensity0 ex2 (particleNodes ex2 ! 0) = None \<and>
   update svd_diag ex2 (1 / 100000) 0 = None"
proof -
  let ?p = "ex_particle (Vec3 (5 / 2) (5 / 2) (5 / 2))"
  have ps: "particleNodes ex2 = [?p]" by (simp add: ex2_def)
  have w: "(1, 1, 4) \<in> set (window (h ex2) ?p)"
    by (simp add: ex2_window set_box)
  have nv: "\<not> isValidGridNode (size3 ex2) (1, 1, 4)"
    by (simp add: ex2_def isValidGridNode_def)
  let ?s1 = "(step1 ex2 0)\<lparr>gridNodes := step2_density0 (step1 ex2 0)\<rparr>"
  have f: "h ?s1 = h ex2" "size3 ?s1 = size3 ex2" "particleNodes ?s1 = [?p]"
    by (simp_all add: step1_def ps)
  have "particleNodeDensity0 ?s1 ?p = None"
    by (rule density_gather_outside [of "(1, 1, 4)"]) (simp_all add: f w nv)
  then have "step2 (step1 ex2 0) = None"
    by (simp add: step2_def Let_def f step2_particle_def)
  then have "update svd_diag ex2 (1 / 100000) 0 = None"
    by (simp add: update_def Let_def)
  moreover have "particleNodeDensity0 ex2 ?p = None"
    by (rule density_gather_outside [OF w nv])
  ultimately show ?thesis
    using w nv by (simp add: ps gridNode_def set_valid_window)
qed

text \<open>
  C3 fails on the code. The operator does not read the solver's \<open>delta_t\<close>: its result
  is the same for every value of that field, and it is the body evaluated at the
  constant \<open>5e-3\<close>. For a solver with \<open>delta_t = 1e-5\<close>, one particle at
  \<open>(1.5, 1.5, 1.5)\<close> and the velocity \<open>(1, 0, 0)\<close> at the node \<open>(1, 1, 1)\<close> the code returns
  \<open>1 + 9 (5e-3)\<^sup>2 g\<^sup>2\<close> in the first component at that node, and the operator with the
  solver's step is \<open>1 + 9 (1e-5)\<^sup>2 g\<^sup>2\<close>, where \<open>g = 2645/18432\<close>.
\<close>

theorem implicit_operator_hard_coded_delta_t:
  "implicitVelocityIntegrationMatrix svd (s\<lparr>delta_t := d\<rparr>) Av v
     = implicitVelocityIntegrationMatrix svd s Av v \<and>
   delta_t ex1 = 1 / 100000 \<and>
   implicitVelocityIntegrationMatrix svd_diag ex1 Av ex_v_next (1, 1, 1)
     = Vec3 (1 + 9 * (5 / 1000)\<^sup>2 * (2645 / 18432)\<^sup>2) 0 0 \<and>
   implicit_body (delta_t ex1) 1 svd_diag ex1 Av ex_v_next (1, 1, 1)
     = Vec3 (1 + 9 * (1 / 100000)\<^sup>2 * (2645 / 18432)\<^sup>2) 0 0 \<and>
   implicitVelocityIntegrationMatrix svd_diag ex1 Av ex_v_next (1, 1, 1)
     \<noteq> implicit_body (delta_t ex1) 1 svd_diag ex1 Av ex_v_next (1, 1, 1)"
proof -
  have d: "delta_t ex1 = 1 / 100000" by (simp add: ex1_def ex_solver_def)
  have code: "implicitVelocityIntegrationMatrix svd_diag ex1 Av ex_v_next (1, 1, 1)
              = Vec3 (1 + 9 * (5 / 1000)\<^sup>2 * (2645 / 18432)\<^sup>2) 0 0"
    by (simp add: implicitVelocityIntegrationMatrix_def Let_def ex1_implicit_body)
  have spec: "implicit_body (delta_t ex1) 1 svd_diag ex1 Av ex_v_next (1, 1, 1)
              = Vec3 (1 + 9 * (1 / 100000)\<^sup>2 * (2645 / 18432)\<^sup>2) 0 0"
    by (simp add: d ex1_implicit_body)
  have ne: "implicitVelocityIntegrationMatrix svd_diag ex1 Av ex_v_next (1, 1, 1)
            \<noteq> implicit_body (delta_t ex1) 1 svd_diag ex1 Av ex_v_next (1, 1, 1)"
    unfolding code spec by simp
  show ?thesis
    by (intro conjI) (rule implicit_ignores_delta_t d code spec ne)+
qed

text \<open>
  C4, amended. After the normalization that ends step 1, the mass of a valid grid node
  is the accumulated mass, the sum of \<open>m\<^sub>p w\<close> over the particles whose window holds the
  node, and its velocity at time \<open>n\<close> is the accumulated momentum, the sum of \<open>m\<^sub>p w v\<^sub>p\<close>,
  divided by that mass when the mass is positive and the length of the momentum, as the
  code computes it, is positive; otherwise it is the zero vector.
\<close>

theorem p2g_normalization:
  assumes valid: "isValidGridNode (size3 s) c" and h0: "h s \<noteq> 0" and ok: "grid_positions_ok s"
  shows "let m_g = sum_list (map (\<lambda>pn. if spec_window (h s) pn c
                                then mass pn * weight (h s) (gridNodes s c) pn else 0)
                         (particleNodes s));
             mv_g = sum_list (map (\<lambda>pn. if spec_window (h s) pn c
                                then scaleV (mass pn * weight (h s) (gridNodes s c) pn) (velocity pn n)
                                else 0)
                         (particleNodes s));
             nd = gridNodes (step1 s n) c
         in mass nd = m_g \<and>
            velocity nd n = (if glm_length mv_g > 0 \<and> m_g > 0 then divV mv_g m_g else 0)"
  by (simp only: Let_def step1_node [OF valid] step1_accumulate_node [OF valid h0 ok])

theorem p2g_normalization_witness:
  "isValidGridNode (size3 (ex3 (Vec3 1 0 0))) (1, 2, 2) \<and> h (ex3 (Vec3 1 0 0)) \<noteq> 0 \<and>
   grid_positions_ok (ex3 (Vec3 1 0 0)) \<and>
   mass (gridNodes (step1 (ex3 (Vec3 1 0 0)) 0) (1, 2, 2)) = 4 / 27 \<and>
   velocity (gridNodes (step1 (ex3 (Vec3 1 0 0)) 0) (1, 2, 2)) 0 = Vec3 1 0 0"
  using p2g_normalization [OF ex3_valid ex3_h ex3_positions_ok, of "Vec3 1 0 0" 0]
    ex3_valid [of "Vec3 1 0 0"] ex3_positions_ok [of "Vec3 1 0 0"]
  by (simp add: Let_def ex3_spec_window ex3_weight scaleV_def divV_def glm_length_pos_iff)

text \<open>
  C4 as stated fails where the computed length underflows. One particle of mass 2 with
  the velocity \<open>(2\<^sup>-\<^sup>6\<^sup>0\<^sup>0, 0, 0)\<close> leaves the node \<open>(1, 2, 2)\<close> with the mass \<open>4/27\<close> and the
  momentum \<open>(4/27 \<cdot> 2\<^sup>-\<^sup>6\<^sup>0\<^sup>0, 0, 0)\<close>, whose square is below \<open>2\<^sup>-\<^sup>1\<^sup>0\<^sup>7\<^sup>5\<close>: the code writes the
  zero vector, and momentum divided by mass is \<open>(2\<^sup>-\<^sup>6\<^sup>0\<^sup>0, 0, 0)\<close>.
\<close>

theorem p2g_normalization_counterexample:
  "mass (step1_accumulate (ex3 (Vec3 (1 / 2 ^ 600) 0 0)) 0 (1, 2, 2)) = 4 / 27 \<and>
   velocity (step1_accumulate (ex3 (Vec3 (1 / 2 ^ 600) 0 0)) 0 (1, 2, 2)) 0
     = Vec3 (4 / 27 / 2 ^ 600) 0 0 \<and>
   velocity (gridNodes (step1 (ex3 (Vec3 (1 / 2 ^ 600) 0 0)) 0) (1, 2, 2)) 0 = Vec3 0 0 0 \<and>
   divV (velocity (step1_accumulate (ex3 (Vec3 (1 / 2 ^ 600) 0 0)) 0 (1, 2, 2)) 0)
        (mass (step1_accumulate (ex3 (Vec3 (1 / 2 ^ 600) 0 0)) 0 (1, 2, 2)))
     = Vec3 (1 / 2 ^ 600) 0 0 \<and>
   0 < mass (step1_accumulate (ex3 (Vec3 (1 / 2 ^ 600) 0 0)) 0 (1, 2, 2)) \<and>
   velocity (gridNodes (step1 (ex3 (Vec3 (1 / 2 ^ 600) 0 0)) 0) (1, 2, 2)) 0
     \<noteq> divV (velocity (step1_accumulate (ex3 (Vec3 (1 / 2 ^ 600) 0 0)) 0 (1, 2, 2)) 0)
            (mass (step1_accumulate (ex3 (Vec3 (1 / 2 ^ 600) 0 0)) 0 (1, 2, 2)))"
proof -
  let ?s = "ex3 (Vec3 (1 / 2 ^ 600) 0 0)"
  have m: "mass (step1_accumulate ?s 0 (1, 2, 2)) = 4 / 27"
    by (simp add: step1_accumulate_node [OF ex3_valid ex3_h ex3_positions_ok]
        ex3_spec_window ex3_weight)
  have mv: "velocity (step1_accumulate ?s 0 (1, 2, 2)) 0 = Vec3 (4 / 27 / 2 ^ 600) 0 0"
    by (simp add: step1_accumulate_node [OF ex3_valid ex3_h ex3_positions_ok]
        ex3_spec_window ex3_weight scaleV_def)
  have small: "\<not> 0 < glm_length (Vec3 (4 / 27 / 2 ^ 600) 0 0)"
    by (simp add: glm_length_pos_iff not_less)
  have v: "velocity (gridNodes (step1 ?s 0) (1, 2, 2)) 0 = Vec3 0 0 0"
    by (simp only: step1_node [OF ex3_valid] mv small) (simp add: zero_vec3_def)
  show ?thesis
    by (simp only: m mv v) (simp add: divV_def)
qed

text \<open>
  C5. After step 3 the force of a valid grid node is the gravity term
  \<open>(0, 0, -9.8 m\<^sub>g)\<close> plus, for every particle whose window
  \<open>\<lfloor>p/h\<rfloor> - 1 \<dots> \<lfloor>p/h\<rfloor> + 2\<close> holds the node, \<open>- volume0 P \<nabla>w\<close> with the stress \<open>P\<close> of the
  spec; the other particles add nothing.
\<close>

theorem grid_force:
  assumes valid: "isValidGridNode (size3 s) c" and h0: "h s \<noteq> 0" and ok: "grid_positions_ok s"
  shows "force (gridNodes (step3 svd s) c) =
         Vec3 0 0 (- (98 / 10) * mass (gridNodes s c))
         + sum_list (map (\<lambda>pn. if spec_window (h s) pn c
                                then scaleV (- volume0 pn)
                                       (mat_vec (stress_P svd s pn)
                                                (nabla_weight (h s) (gridNodes s c) pn))
                                else 0) (particleNodes s))"
proof -
  have pos: "position (gridNodes s c) = scaleV (h s) (coord_vec c)"
    by (rule grid_positions_okD [OF ok valid])
  have g0: "force (step3_gravity s c) = Vec3 0 0 (- (98 / 10) * mass (gridNodes s c))"
    and p0: "position (step3_gravity s c) = position (gridNodes s c)"
    using valid by (simp_all add: step3_gravity_def for_gridNodes_def)
  have nw: "nabla_weight (h s) (step3_gravity s c) q = nabla_weight (h s) (gridNodes s c) q" for q :: particlenode
    by (rule nabla_weight_cong [OF p0])
  have "force (gridNodes (step3 svd s) c)
        = force (step3_gravity s c)
          + sum_list (map (\<lambda>pn. if c \<in> set (valid_window s pn)
                then mat_vec (unweightedForce svd s pn) (nabla_weight (h s) (step3_gravity s c) pn)
                else 0) (particleNodes s))"
    by (simp add: step3_def step3_particles_force)
  also have "\<dots> = Vec3 0 0 (- (98 / 10) * mass (gridNodes s c))
          + sum_list (map (\<lambda>pn. if c \<in> set (window (h s) pn)
                then scaleV (- volume0 pn) (mat_vec (stress_P svd s pn) (nabla_weight (h s) (gridNodes s c) pn))
                else 0) (particleNodes s))"
    using valid
    by (simp add: g0 nw unweightedForce_stress mat_vec_scaleM set_valid_window cong: if_cong)
  also have "sum_list (map (\<lambda>pn. if c \<in> set (window (h s) pn)
                then scaleV (- volume0 pn) (mat_vec (stress_P svd s pn) (nabla_weight (h s) (gridNodes s c) pn))
                else 0) (particleNodes s))
           = sum_list (map (\<lambda>pn. if spec_window (h s) pn c
                then scaleV (- volume0 pn) (mat_vec (stress_P svd s pn) (nabla_weight (h s) (gridNodes s c) pn))
                else 0) (particleNodes s))"
    by (rule arg_cong [where f = sum_list], rule map_cong [OF refl],
        rule window_if_spec_window [OF valid h0 pos]) simp
  finally show ?thesis .
qed

theorem grid_force_witness:
  "isValidGridNode (size3 (ex3 (Vec3 1 0 0))) (1, 2, 2) \<and> h (ex3 (Vec3 1 0 0)) \<noteq> 0 \<and>
   grid_positions_ok (ex3 (Vec3 1 0 0)) \<and>
   force (gridNodes (step3 svd_diag (ex3 (Vec3 1 0 0))) (1, 2, 2)) = Vec3 (- (1 / 18)) 0 (- (49 / 5))"
  using grid_force [OF ex3_valid [of "Vec3 1 0 0"] ex3_h ex3_positions_ok, where svd = svd_diag]
    ex3_valid [of "Vec3 1 0 0"] ex3_positions_ok [of "Vec3 1 0 0"]
  by (simp add: ex3_spec_window ex3_stress ex3_nabla_weight dmat3_def mat_vec_def scaleV_def
      plus_vec3_def zero_vec3_def)

text \<open>
  C6. The solver call of step 6 is commented out: after steps 4 to 6 the velocity at
  time \<open>n + 1\<close> of every valid grid node is its \<open>velocity_star\<close> after the collision of
  step 5, \<open>velocity_star\<close> and the velocity at time \<open>n\<close> are untouched, and the particle
  update that follows leaves the grid alone.
\<close>

theorem explicit_fallback:
  assumes "isValidGridNode (size3 s) c"
  shows "let s5 = step45 s dt n; s6 = step6 s5 n
         in velocity (gridNodes s6 c) (n + 1) = velocity_star (gridNodes s5 c) \<and>
            velocity_star (gridNodes s6 c) = velocity_star (gridNodes s5 c) \<and>
            velocity (gridNodes s6 c) n = velocity (gridNodes s5 c) n \<and>
            gridNodes (step7_10 svd s6 dt n) = gridNodes s6"
  using assms by (simp add: step6_def Let_def step7_10_def)

theorem explicit_fallback_witness:
  "isValidGridNode (size3 ex1) (1, 1, 1) \<and>
   (let s5 = step45 ex1 (1 / 100000) 0; s6 = step6 s5 0
    in velocity (gridNodes s6 (1, 1, 1)) (0 + 1) = velocity_star (gridNodes s5 (1, 1, 1)) \<and>
       velocity_star (gridNodes s6 (1, 1, 1)) = velocity_star (gridNodes s5 (1, 1, 1)) \<and>
       velocity (gridNodes s6 (1, 1, 1)) 0 = velocity (gridNodes s5 (1, 1, 1)) 0 \<and>
       gridNodes (step7_10 svd_diag s6 (1 / 100000) 0) = gridNodes s6)"
  using explicit_fallback [OF ex1_valid, of "1 / 100000" 0 svd_diag] ex1_valid by simp

text \<open>
  C7. For a node in contact with the floor (\<open>position.z \<le> 0.1\<close>), with \<open>n = (0, 0, 1)\<close>,
  \<open>v\<^sub>c\<^sub>o = 0\<close> and \<open>\<mu>\<^sub>f = 1\<close>: the node is unchanged when \<open>v\<^sub>n \<ge> 0\<close>; its velocity becomes
  \<open>v\<^sub>c\<^sub>o\<close> when \<open>|v\<^sub>t| \<le> - \<mu>\<^sub>f v\<^sub>n\<close>; otherwise it becomes \<open>v\<^sub>t + \<mu>\<^sub>f v\<^sub>n (v\<^sub>t / |v\<^sub>t|) + v\<^sub>c\<^sub>o\<close>.
\<close>

theorem floor_collision_cases:
  fixes nd :: "'a node_scheme"
  assumes "vz (position nd) \<le> 1 / 10"
  shows "let n = Vec3 0 0 1; v_co = Vec3 0 0 0; mu_f = 1;
             v_rel = velocity_star nd - v_co;
             v_n = dot v_rel n;
             v_t = v_rel - scaleV v_n n
         in handleNodeCollisionVelocityUpdate nd =
            (if v_n \<ge> 0 then nd
             else if length3 v_t \<le> - mu_f * v_n then nd\<lparr>velocity_star := v_co\<rparr>
             else nd\<lparr>velocity_star := v_t + scaleV (mu_f * v_n) (divV v_t (length3 v_t)) + v_co\<rparr>)"
  using assms
  by (simp add: handleNodeCollisionVelocityUpdate_def Let_def normalize_def length3_def
      scaleV_def divV_def plus_vec3_def)

theorem floor_collision_cases_witness:
  "vz (position (floor_node (Vec3 3 4 (- 1)))) \<le> 1 / 10 \<and>
   handleNodeCollisionVelocityUpdate (floor_node (Vec3 1 0 1)) = floor_node (Vec3 1 0 1) \<and>
   handleNodeCollisionVelocityUpdate (floor_node (Vec3 0 0 (- 1))) = floor_node (Vec3 0 0 0) \<and>
   handleNodeCollisionVelocityUpdate (floor_node (Vec3 3 4 (- 1))) = floor_node (Vec3 (12 / 5) (16 / 5) 0)"
proof -
  have p: "vz (position (floor_node v)) \<le> 1 / 10" for v
    by (simp add: floor_node_def)
  show ?thesis
    using floor_collision_cases [OF p, of "Vec3 1 0 1"] floor_collision_cases [OF p, of "Vec3 0 0 (- 1)"]
      floor_collision_cases [OF p, of "Vec3 3 4 (- 1)"]
    by (simp add: floor_node_def Let_def dot_def length3_def scaleV_def divV_def
        minus_vec3_def plus_vec3_def zero_vec3_def sqrt_25)
qed

text \<open>
  C8. The collision handler is idempotent.
\<close>

theorem collision_idempotent:
  "handleNodeCollisionVelocityUpdate (handleNodeCollisionVelocityUpdate nd)
   = handleNodeCollisionVelocityUpdate nd"
  using handle_cases [of nd] handle_vz0 [of "handleNodeCollisionVelocityUpdate nd"] by auto

text \<open>
  C9. After step 1 the masses of the grid nodes add up to the masses of the particles,
  over the reals, when the window \<open>\<lfloor>p/h\<rfloor> - 1 \<dots> \<lfloor>p/h\<rfloor> + 2\<close> of every particle lies inside
  the grid. The grid is as the constructor builds it (the node at \<open>c\<close> sits at \<open>h c\<close>,
  \<open>h \<noteq> 0\<close>), and the weights are the cubic B-spline weights of the spec.
\<close>

theorem grid_mass_conservation:
  assumes h0: "h s \<noteq> 0" and ok: "grid_positions_ok s"
    and inside: "list_all (window_inside s) (particleNodes s)"
  shows "totalGridNodeMass (step1 s n) = totalParticleMass s"
proof -
  let ?F = "\<lambda>c pn. if c \<in> set (window (h s) pn)
                    then mass pn * weight (h s) (gridNodes s c) pn else 0"
  have sz: "size3 (step1 s n) = size3 s" by (simp add: step1_def)
  have "totalGridNodeMass (step1 s n)
        = sum_list (map (\<lambda>c. sum_list (map (?F c) (particleNodes s))) (grid_coords (size3 s)))"
    unfolding totalGridNodeMass_def sz
    by (rule arg_cong [where f = sum_list], rule map_cong [OF refl])
       (simp add: set_grid_coords step1_mass)
  also have "\<dots> = sum_list (map (\<lambda>pn. sum_list (map (\<lambda>c. ?F c pn) (grid_coords (size3 s))))
                              (particleNodes s))"
    by (rule sum_list_swap)
  also have "\<dots> = sum_list (map mass (particleNodes s))"
  proof (rule arg_cong [where f = sum_list], rule map_cong [OF refl])
    fix pn assume "pn \<in> set (particleNodes s)"
    with inside have ins: "window_inside s pn" by (simp add: list_all_iff)
    have sub: "set (window (h s) pn) \<subseteq> set (grid_coords (size3 s))"
      using window_inside_valid [OF ins] by (auto simp: set_grid_coords)
    have "sum_list (map (\<lambda>c. ?F c pn) (grid_coords (size3 s)))
          = sum_list (map (\<lambda>c. mass pn * weight (h s) (gridNodes s c) pn) (window (h s) pn))"
      by (rule sum_list_restrict [OF distinct_grid_coords _ sub])
         (simp add: window_def distinct_box)
    also have "\<dots> = mass pn * sum_list (map (\<lambda>c. weight (h s) (gridNodes s c) pn) (window (h s) pn))"
      by (simp add: sum_list_const_mult)
    finally show "sum_list (map (\<lambda>c. ?F c pn) (grid_coords (size3 s))) = mass pn"
      by (simp add: window_weight_sum [OF h0 ok ins])
  qed
  finally show ?thesis by (simp add: totalParticleMass_def)
qed

theorem grid_mass_conservation_witness:
  "h ex1 \<noteq> 0 \<and> grid_positions_ok ex1 \<and> list_all (window_inside ex1) (particleNodes ex1) \<and>
   totalGridNodeMass (step1 ex1 0) = 2"
proof -
  have a: "h ex1 \<noteq> 0" by (simp add: ex1_def)
  have b: "grid_positions_ok ex1" by (simp add: ex1_def ex_positions_ok)
  have c: "list_all (window_inside ex1) (particleNodes ex1)"
    by (simp add: ex1_def window_inside_def Let_def divV_def isValidGridNode_def)
  from grid_mass_conservation [OF a b c, of 0] a b c show ?thesis
    by (simp add: totalParticleMass_def ex1_def)
qed

text \<open>
  C10. Step 7 keeps the product of the elastic and the plastic part: for every particle,
  \<open>deformElastic * deformPlastic\<close> after the step is \<open>(I + \<Delta>t \<nabla>v) F\<^sub>E F\<^sub>P\<close> of the values
  before it, where \<open>\<nabla>v\<close> is the sum of \<open>v\<^sub>g \<otimes> \<nabla>w\<close> over the grid nodes of the particle's
  window with the node velocities at time \<open>n + 1\<close>, when the clamped singular values are
  not zero and the decomposition returns orthogonal \<open>U\<close> and \<open>V\<close>.
\<close>

theorem deformation_product_preserved:
  fixes s :: snowsolver and svd :: svd_fun
  defines "grad_v \<equiv> \<lambda>s n pn.
             sum_list (map (\<lambda>c. if spec_window (h s) pn c
                                  then outerProduct (velocity (gridNodes s c) (n + 1))
                                                    (nabla_weight (h s) (gridNodes s c) pn)
                                  else 0)
                           (grid_coords (size3 s)))"
  assumes i: "i < length (particleNodes s)"
    and h0: "h s \<noteq> 0" and ok: "grid_positions_ok s"
    and svd: "svd ((1 + scaleM dt (grad_v s n (particleNodes s ! i)))
                   * deformElastic (particleNodes s ! i)) = (u, e, v)"
    and u: "orthogonal3 u" and v: "orthogonal3 v"
    and nz: "vx (clampV e (1 - criticalCompression s) (1 + criticalStretch s)) \<noteq> 0"
            "vy (clampV e (1 - criticalCompression s) (1 + criticalStretch s)) \<noteq> 0"
            "vz (clampV e (1 - criticalCompression s) (1 + criticalStretch s)) \<noteq> 0"
  shows "deformElastic (particleNodes (step7_10 svd s dt n) ! i)
           * deformPlastic (particleNodes (step7_10 svd s dt n) ! i)
         = (1 + scaleM dt (grad_v s n (particleNodes s ! i)))
           * deformElastic (particleNodes s ! i) * deformPlastic (particleNodes s ! i)"
proof -
  have gv: "grad_v s n (particleNodes s ! i) = nabla_v s n (particleNodes s ! i)"
    unfolding grad_v_def by (rule nabla_v_sum [OF h0 ok, symmetric])
  from svd have svd': "svd (deformElastic_prime s dt n (particleNodes s ! i)) = (u, e, v)"
    by (simp add: gv deformElastic_prime_def multiplier_def)
  from u v have u': "u * transpose3 u = 1" and v': "transpose3 v * v = 1"
    by (simp_all add: orthogonal3_def)
  from nz have nz': "clamp (vx e) (1 - criticalCompression s) (1 + criticalStretch s) \<noteq> 0"
    "clamp (vy e) (1 - criticalCompression s) (1 + criticalStretch s) \<noteq> 0"
    "clamp (vz e) (1 - criticalCompression s) (1 + criticalStretch s) \<noteq> 0"
    by (simp_all add: clampV_def)
  from i show ?thesis
    by (simp add: gv step7_10_def step7_product [where svd = svd, OF svd' u' v' nz'] multiplier_def)
qed

theorem deformation_product_preserved_witness:
  "0 < length (particleNodes (ex3 0)) \<and> h (ex3 0) \<noteq> 0 \<and> grid_positions_ok (ex3 0) \<and>
   svd_diag (dmat3 2 0 0 0 1 0 0 0 (1 / 2)) = (1, Vec3 2 1 (1 / 2), 1) \<and>
   orthogonal3 1 \<and>
   clampV (Vec3 2 1 (1 / 2)) (1 - criticalCompression (ex3 0)) (1 + criticalStretch (ex3 0))
     = Vec3 (403 / 400) 1 (39 / 40) \<and>
   deformElastic (particleNodes (ex3 0) ! 0) = dmat3 1 0 0 0 1 0 0 0 (1 / 2) \<and>
   deformPlastic (particleNodes (ex3 0) ! 0) = dmat3 2 0 0 0 (1 / 2) 0 0 0 1 \<and>
   deformElastic (particleNodes (step7_10 svd_diag (ex3 0) 1 0) ! 0)
     = dmat3 (403 / 400) 0 0 0 1 0 0 0 (39 / 40) \<and>
   deformPlastic (particleNodes (step7_10 svd_diag (ex3 0) 1 0) ! 0)
     = dmat3 (1600 / 403) 0 0 0 (1 / 2) 0 0 0 (20 / 39) \<and>
   deformElastic (particleNodes (step7_10 svd_diag (ex3 0) 1 0) ! 0)
     * deformPlastic (particleNodes (step7_10 svd_diag (ex3 0) 1 0) ! 0)
     = dmat3 4 0 0 0 (1 / 2) 0 0 0 (1 / 2)"
proof -
  let ?s = "ex3 0"
  have i: "0 < length (particleNodes ?s)" by simp
  have fe0: "deformElastic (ex3_particle 0) = dmat3 1 0 0 0 1 0 0 0 (1 / 2)"
    and fp0: "deformPlastic (ex3_particle 0) = dmat3 2 0 0 0 (1 / 2) 0 0 0 1"
    by simp_all
  have svd: "svd_diag ((1 + scaleM 1
       (sum_list (map (\<lambda>c. if spec_window (h ?s) (particleNodes ?s ! 0) c
                       then outerProduct (velocity (gridNodes ?s c) (0 + 1))
                              (nabla_weight (h ?s) (gridNodes ?s c) (particleNodes ?s ! 0))
                       else 0)
                 (grid_coords (size3 ?s)))))
       * deformElastic (particleNodes ?s ! 0)) = (1, Vec3 2 1 (1 / 2), 1)"
    by (simp only: ex3_particle_0 ex3_grad_v fe0 ex3_multiplier svd_diag_dmat3)
  have cl: "clampV (Vec3 2 1 (1 / 2)) (1 - criticalCompression ?s) (1 + criticalStretch ?s)
            = Vec3 (403 / 400) 1 (39 / 40)"
    by (simp add: clampV_def clamp_def)
  have nz: "vx (clampV (Vec3 2 1 (1 / 2)) (1 - criticalCompression ?s) (1 + criticalStretch ?s)) \<noteq> 0"
    "vy (clampV (Vec3 2 1 (1 / 2)) (1 - criticalCompression ?s) (1 + criticalStretch ?s)) \<noteq> 0"
    "vz (clampV (Vec3 2 1 (1 / 2)) (1 - criticalCompression ?s) (1 + criticalStretch ?s)) \<noteq> 0"
    by (simp_all only: cl vec3.sel)
  have fe: "deformElastic (particleNodes (step7_10 svd_diag ?s 1 0) ! 0)
            = dmat3 (403 / 400) 0 0 0 1 0 0 0 (39 / 40)"
    and fp: "deformPlastic (particleNodes (step7_10 svd_diag ?s 1 0) ! 0)
            = dmat3 (1600 / 403) 0 0 0 (1 / 2) 0 0 0 (20 / 39)"
    by (simp_all add: step7_10_def ex3_step7)
  have rhs: "(1 + scaleM 1
       (sum_list (map (\<lambda>c. if spec_window (h ?s) (particleNodes ?s ! 0) c
                       then outerProduct (velocity (gridNodes ?s c) (0 + 1))
                              (nabla_weight (h ?s) (gridNodes ?s c) (particleNodes ?s ! 0))
                       else 0)
                 (grid_coords (size3 ?s)))))
       * deformElastic (particleNodes ?s ! 0) * deformPlastic (particleNodes ?s ! 0)
       = dmat3 4 0 0 0 (1 / 2) 0 0 0 (1 / 2)"
    by (simp only: ex3_particle_0 ex3_grad_v fe0 fp0 ex3_multiplier diag_mult) simp
  from deformation_product_preserved [where svd = svd_diag, OF i ex3_h ex3_positions_ok svd
      orthogonal3_one orthogonal3_one nz]
  have "deformElastic (particleNodes (step7_10 svd_diag ?s 1 0) ! 0)
     * deformPlastic (particleNodes (step7_10 svd_diag ?s 1 0) ! 0)
     = dmat3 4 0 0 0 (1 / 2) 0 0 0 (1 / 2)"
    by (simp only: rhs)
  with i ex3_positions_ok [of 0] cl fe fp orthogonal3_one show ?thesis
    by (simp add: svd_diag_dmat3)
qed

end
